theory Spec2Isabelle
  imports Complex_Main
begin

section \<open>JavaScript values used by lib/buienradar.js\<close>

text \<open>
  A JavaScript number is modelled as a real, with the one non-numeric number value
  \<open>NaN\<close> kept apart. Doubles are idealised as reals throughout: rounding error and
  overflow to \<open>Infinity\<close> are not part of the model. The coordinates are such numbers.
\<close>

datatype jsnum = Num real | NaN

text \<open>\<^verbatim>\<open>Math.round\<close> rounds to the nearest integer, halves towards plus infinity.\<close>

definition Math_round :: "real \<Rightarrow> real" where
  "Math_round x = of_int \<lfloor>x + 1 / 2\<rfloor>"

text \<open>\<^verbatim>\<open>Math.round(x * 100) / 100\<close>, the rounding to two decimals used for coordinates and amounts.\<close>

definition round2 :: "real \<Rightarrow> real" where
  "round2 x = Math_round (x * 100) / 100"

subsection \<open>Strings of digits\<close>

text \<open>\<^verbatim>\<open>\d\<close>, and the number a string of decimal digits stands for; the empty string gives 0.\<close>

definition is_digit :: "char \<Rightarrow> bool" where
  "is_digit c = (c \<in> set ''0123456789'')"

definition digit_value :: "char \<Rightarrow> int" where
  "digit_value c = int (of_char c) - 48"

definition Number_of :: "string \<Rightarrow> int" where
  "Number_of ds = foldl (\<lambda>n c. 10 * n + digit_value c) 0 ds"

section \<open>Conversion of an argument to a number\<close>

text \<open>
  \<^verbatim>\<open>getRainIndication\<close> takes any value: \<^verbatim>\<open>isNaN\<close> and \<^verbatim>\<open><\<close> convert it to a number first.
  The values an argument can be: \<^verbatim>\<open>undefined\<close>, \<^verbatim>\<open>null\<close>, a boolean, a number, a string, an
  array of such values, a plain object. (A symbol or a big integer makes \<^verbatim>\<open>isNaN\<close> throw; an
  object with its own \<^verbatim>\<open>valueOf\<close> or \<^verbatim>\<open>toString\<close> converts as that method says. Both are
  left out.) As an argument, a number may also be one of the infinities, which the string
  \<^verbatim>\<open>'Infinity'\<close> denotes as well. Strings are strings of characters below 256.
\<close>

datatype number = Finite real | PlusInfinity | MinusInfinity | NotANumber

datatype argument =
    UndefinedArg
  | NullArg
  | BooleanArg bool
  | NumberArg number
  | StringArg string
  | ArrayArg "argument list"
  | ObjectArg

text \<open>
  The conversion of a string (the grammar \<^verbatim>\<open>StringNumericLiteral\<close> of the language): white
  space around the literal is dropped; nothing left is 0; then a literal in base 16, 8 or 2
  after \<^verbatim>\<open>0x\<close>, \<^verbatim>\<open>0o\<close>, \<^verbatim>\<open>0b\<close>, or a decimal literal with an optional sign: \<^verbatim>\<open>Infinity\<close>, or
  digits with an optional fraction and an optional exponent, at least one digit before the
  exponent. Any other string is \<^verbatim>\<open>NaN\<close>.
\<close>

definition is_whitespace :: "char \<Rightarrow> bool" where
  "is_whitespace c =
     (c \<in> set [CHR 0x09, CHR 0x0A, CHR 0x0B, CHR 0x0C, CHR 0x0D, CHR 0x20, CHR 0xA0])"

definition trim :: "string \<Rightarrow> string" where
  "trim str = rev (dropWhile is_whitespace (rev (dropWhile is_whitespace str)))"

definition hex_value :: "char \<Rightarrow> nat option" where
  "hex_value c =
     (let n = of_char c :: nat
      in if 48 \<le> n \<and> n \<le> 57 then Some (n - 48)
         else if 97 \<le> n \<and> n \<le> 102 then Some (n - 87)
         else if 65 \<le> n \<and> n \<le> 70 then Some (n - 55)
         else None)"

definition is_radix_digit :: "nat \<Rightarrow> char \<Rightarrow> bool" where
  "is_radix_digit radix c = (case hex_value c of None \<Rightarrow> False | Some d \<Rightarrow> d < radix)"

definition radix_number :: "nat \<Rightarrow> string \<Rightarrow> number" where
  "radix_number radix ds =
     (if ds \<noteq> [] \<and> list_all (is_radix_digit radix) ds
      then Finite (of_nat (foldl (\<lambda>n c. case hex_value c of None \<Rightarrow> n | Some d \<Rightarrow> radix * n + d) 0 ds))
      else NotANumber)"

text \<open>The exponent at the end of a decimal literal: 0 when there is none, \<open>None\<close> when what
  is left is no exponent.\<close>

definition exponent_part :: "string \<Rightarrow> int option" where
  "exponent_part rest =
     (case rest of
        [] \<Rightarrow> Some 0
      | c # t \<Rightarrow>
          if c = CHR ''e'' \<or> c = CHR ''E''
          then (let (negative, ds) =
                      (case t of
                         [] \<Rightarrow> (False, [])
                       | sign # u \<Rightarrow>
                           if sign = CHR ''-'' then (True, u)
                           else if sign = CHR ''+'' then (False, u)
                           else (False, t))
                in if ds \<noteq> [] \<and> list_all is_digit ds
                   then Some (if negative then - Number_of ds else Number_of ds)
                   else None)
          else None)"

definition unsigned_decimal :: "string \<Rightarrow> number" where
  "unsigned_decimal str =
     (if str = ''Infinity'' then PlusInfinity
      else (let whole = takeWhile is_digit str;
                rest = dropWhile is_digit str;
                (fraction, rest') =
                   (case rest of
                      [] \<Rightarrow> ([], [])
                    | c # t \<Rightarrow>
                        if c = CHR ''.'' then (takeWhile is_digit t, dropWhile is_digit t)
                        else ([], rest))
            in if whole = [] \<and> fraction = [] then NotANumber
               else (case exponent_part rest' of
                       None \<Rightarrow> NotANumber
                     | Some e \<Rightarrow>
                         Finite ((of_int (Number_of whole)
                                   + of_int (Number_of fraction) / 10 ^ length fraction)
                                 * (if 0 \<le> e then 10 ^ nat e else 1 / 10 ^ nat (- e))))))"

fun negate :: "number \<Rightarrow> number" where
  "negate (Finite r) = Finite (- r)"
| "negate PlusInfinity = MinusInfinity"
| "negate MinusInfinity = PlusInfinity"
| "negate NotANumber = NotANumber"

definition StringToNumber :: "string \<Rightarrow> number" where
  "StringToNumber str =
     (case trim str of
        [] \<Rightarrow> Finite 0
      | c # u \<Rightarrow>
          if c = CHR ''+'' then unsigned_decimal u
          else if c = CHR ''-'' then negate (unsigned_decimal u)
          else (case u of
                  [] \<Rightarrow> unsigned_decimal (c # u)
                | p # ds \<Rightarrow>
                    if c = CHR ''0'' \<and> (p = CHR ''x'' \<or> p = CHR ''X'') then radix_number 16 ds
                    else if c = CHR ''0'' \<and> (p = CHR ''o'' \<or> p = CHR ''O'') then radix_number 8 ds
                    else if c = CHR ''0'' \<and> (p = CHR ''b'' \<or> p = CHR ''B'') then radix_number 2 ds
                    else unsigned_decimal (c # u)))"

text \<open>
  An array converts as the string \<^verbatim>\<open>join(',')\<close> makes of it. No element gives the empty
  string; one element gives the string of that element, which is empty for \<^verbatim>\<open>undefined\<close>
  and \<^verbatim>\<open>null\<close>, \<^verbatim>\<open>'true'\<close> or \<^verbatim>\<open>'false'\<close> for a boolean, \<^verbatim>\<open>'[object Object]'\<close> for an object,
  and for a number the string that converts back to it; more elements give a string with a
  comma, which is no number.
\<close>

fun joined_number :: "argument list \<Rightarrow> number" and element_number :: "argument \<Rightarrow> number" where
  "joined_number [] = Finite 0"
| "joined_number [x] = element_number x"
| "joined_number (x # y # zs) = NotANumber"
| "element_number UndefinedArg = Finite 0"
| "element_number NullArg = Finite 0"
| "element_number (BooleanArg b) = NotANumber"
| "element_number (NumberArg n) = n"
| "element_number (StringArg str) = StringToNumber str"
| "element_number (ArrayArg xs) = joined_number xs"
| "element_number ObjectArg = NotANumber"

text \<open>The conversion \<^verbatim>\<open>ToNumber\<close> of the language.\<close>

fun ToNumber :: "argument \<Rightarrow> number" where
  "ToNumber UndefinedArg = NotANumber"
| "ToNumber NullArg = Finite 0"
| "ToNumber (BooleanArg b) = Finite (if b then 1 else 0)"
| "ToNumber (NumberArg n) = n"
| "ToNumber (StringArg str) = StringToNumber str"
| "ToNumber (ArrayArg xs) = joined_number xs"
| "ToNumber ObjectArg = NotANumber"

text \<open>The global \<^verbatim>\<open>isNaN\<close>, and \<^verbatim>\<open>x < c\<close> for a number \<open>c\<close>, which is false when \<open>x\<close>
  converts to \<^verbatim>\<open>NaN\<close>.\<close>

definition isNaN :: "argument \<Rightarrow> bool" where
  "isNaN x = (ToNumber x = NotANumber)"

definition less_than :: "argument \<Rightarrow> real \<Rightarrow> bool" where
  "less_than x c =
     (case ToNumber x of
        Finite r \<Rightarrow> r < c
      | PlusInfinity \<Rightarrow> False
      | MinusInfinity \<Rightarrow> True
      | NotANumber \<Rightarrow> False)"

section \<open>Rain indication\<close>

text \<open>
  \<^verbatim>\<open>Buienradar.rainIndicators = { NO_RAIN: 0.1, LIGHT_RAIN: 2.5, MODERATE_RAIN: 10,
  HEAVY_RAIN: 50, VIOLENT_RAIN: 51 }\<close>
\<close>

record rainIndicators_t =
  NO_RAIN :: real
  LIGHT_RAIN :: real
  MODERATE_RAIN :: real
  HEAVY_RAIN :: real
  VIOLENT_RAIN :: real

definition rainIndicators :: rainIndicators_t where
  "rainIndicators =
     \<lparr>NO_RAIN = 0.1, LIGHT_RAIN = 2.5, MODERATE_RAIN = 10, HEAVY_RAIN = 50, VIOLENT_RAIN = 51\<rparr>"

text \<open>
  \<^verbatim>\<open>getRainIndication\<close> (lines 64 to 79) returns either the boolean \<^verbatim>\<open>false\<close> or one of the
  numbers of \<open>rainIndicators\<close>.
\<close>

datatype indication = JsFalse | Indicator real

definition getRainIndication :: "argument \<Rightarrow> indication" where
  "getRainIndication amount =
     (if isNaN amount then JsFalse
      else if less_than amount 0.1 then Indicator (NO_RAIN rainIndicators)
      else if less_than amount 2.5 then Indicator (LIGHT_RAIN rainIndicators)
      else if less_than amount 10 then Indicator (MODERATE_RAIN rainIndicators)
      else if less_than amount 50 then Indicator (HEAVY_RAIN rainIndicators)
      else Indicator (VIOLENT_RAIN rainIndicators))"

section \<open>Errors and promises\<close>

text \<open>
  Every \<^verbatim>\<open>new Error(...)\<close> of the module, and the exceptions the language itself raises,
  as values. A promise is pending, resolved with a value or rejected with an error.
\<close>

datatype error =
    InitError \<comment> \<open>'Buienradar should be initiated with lat and lon config'\<close>
  | IncorrectLocation \<comment> \<open>'new location is incorrect!'\<close>
  | LocationNotSet \<comment> \<open>'Location is not set properly, please check location settings and try again.'\<close>
  | NoUrlReceivedRainData \<comment> \<open>'No url received rain data'\<close>
  | Timeout \<comment> \<open>'timeout'\<close>
  | CouldNotGetData \<comment> \<open>'Could not get data from buienradar service, please try again later.'\<close>
  | InvalidResponse \<comment> \<open>'Got invalid response from server'\<close>
  | NoNearestStation \<comment> \<open>'Could not get nearest weather station from data'\<close>
  | ReferenceError string \<comment> \<open>an identifier that is bound nowhere\<close>
  | TypeError \<comment> \<open>property access on undefined or null, call of a non-function\<close>
  | TransportError \<comment> \<open>the 'error' event of a request\<close>
  | XmlError \<comment> \<open>the error the XML parser hands to its callback\<close>

datatype 'a promise = Pending | Resolved 'a | Rejected error

section \<open>The rain text\<close>

text \<open>
  \<^verbatim>\<open>const rainDataRegex = /(\d*)\|([\d:]*)/g\<close>. The matches of the global regular
  expression, from left to right, each as the pair of its two groups. At a position the
  greedy \<^verbatim>\<open>\d*\<close> takes the whole run of digits; the match succeeds iff a bar follows (giving
  up digits cannot help: the character after a shorter run is a digit). After a match the
  scan goes on behind it, after a failure one character further.
\<close>

definition is_time_char :: "char \<Rightarrow> bool" where
  "is_time_char c = (is_digit c \<or> c = CHR '':'')"

function rainDataRegex_matches :: "string \<Rightarrow> (string \<times> string) list" where
  "rainDataRegex_matches [] = []"
| "rainDataRegex_matches (c # cs) =
     (case dropWhile is_digit (c # cs) of
        [] \<Rightarrow> rainDataRegex_matches cs
      | r # after \<Rightarrow>
          if r = CHR ''|''
          then (takeWhile is_digit (c # cs), takeWhile is_time_char after)
                 # rainDataRegex_matches (dropWhile is_time_char after)
          else rainDataRegex_matches cs)"
  by pat_completeness auto
termination
proof (relation "measure length", goal_cases)
  case 1
  show ?case by simp
next
  case (2 c cs)
  show ?case by simp
next
  case (3 c cs r after)
  have "length (dropWhile is_time_char after) \<le> length after"
    by (rule length_dropWhile_le)
  moreover have "length (r # after) \<le> length (c # cs)"
    using 3(1) length_dropWhile_le [of is_digit "c # cs"] by simp
  ultimately show ?case by simp
next
  case (4 c cs r after)
  show ?case by simp
qed

text \<open>\<^verbatim>\<open>body.match(rainDataRegex)\<close> is \<^verbatim>\<open>null\<close> iff there is no match.\<close>

definition matches_rainDataRegex :: "string \<Rightarrow> bool" where
  "matches_rainDataRegex body = (rainDataRegex_matches body \<noteq> [])"

text \<open>\<^verbatim>\<open>Math.round(Math.pow(10, (value - 109) / 32) * 100) / 100\<close>\<close>

definition amount_of :: "string \<Rightarrow> real" where
  "amount_of v = round2 (10 powr ((of_int (Number_of v) - 109) / 32))"

text \<open>
  \<^verbatim>\<open>time.split(':')\<close>: never empty, so the first part and the list of the others.
\<close>

fun split_colon :: "string \<Rightarrow> string \<times> string list" where
  "split_colon [] = ([], [])"
| "split_colon (c # cs) =
     (let (p, ps) = split_colon cs
      in if c = CHR '':'' then ([], p # ps) else (c # p, ps))"

subsection \<open>Dates\<close>

text \<open>
  A \<^verbatim>\<open>Date\<close> is its time value in milliseconds, read on the local clock: the offset of the
  time zone is taken as fixed (no daylight-saving change inside the days concerned), and
  the range limit of \<^verbatim>\<open>Date\<close> is not modelled. \<^verbatim>\<open>setHours(hour, min, sec, ms)\<close> keeps
  the day and replaces the time of day; an argument that is not given keeps the date's own
  field, arguments after the fourth are ignored.
\<close>

definition msPerDay :: int where
  "msPerDay = 24 * 3600 * 1000"

definition startOfDay :: "int \<Rightarrow> int" where
  "startOfDay t = t - t mod msPerDay"

definition getMinutes :: "int \<Rightarrow> int" where
  "getMinutes t = (t mod (3600 * 1000)) div (60 * 1000)"

definition getSeconds :: "int \<Rightarrow> int" where
  "getSeconds t = (t mod (60 * 1000)) div 1000"

definition getMilliseconds :: "int \<Rightarrow> int" where
  "getMilliseconds t = t mod 1000"

definition MakeDate :: "int \<Rightarrow> int \<Rightarrow> int \<Rightarrow> int \<Rightarrow> int \<Rightarrow> int" where
  "MakeDate t hour mi sec ms = startOfDay t + hour * (3600 * 1000) + mi * (60 * 1000) + sec * 1000 + ms"

fun setHours :: "int \<Rightarrow> int \<Rightarrow> int list \<Rightarrow> int" where
  "setHours t hour [] = MakeDate t hour (getMinutes t) (getSeconds t) (getMilliseconds t)"
| "setHours t hour [mi] = MakeDate t hour mi (getSeconds t) (getMilliseconds t)"
| "setHours t hour [mi, sec] = MakeDate t hour mi sec (getMilliseconds t)"
| "setHours t hour (mi # sec # ms # _) = MakeDate t hour mi sec ms"

subsection \<open>The samples\<close>

record sample =
  rawValue :: string \<comment> \<open>\<^verbatim>\<open>value\<close>: the first group, as the string it is\<close>
  amount :: real
  time :: int
  indication :: indication

text \<open>
  The time of the first sample (lines 151 to 156): \<^verbatim>\<open>new Date()\<close>, then
  \<^verbatim>\<open>setHours.apply(previousTime, time.split(':').concat(0))\<close>, then one day more if
  \<^verbatim>\<open>previousTime.getTime() - Date.now() > 12 * 3600 * 1000\<close>. The clock is read as the same
  \<open>now\<close> both times.
\<close>

definition firstTime :: "int \<Rightarrow> string \<Rightarrow> int" where
  "firstTime now tm =
     (let (hour, others) = split_colon tm;
          previousTime = setHours now (Number_of hour) (map Number_of others @ [0])
      in if previousTime - now > 12 * 3600 * 1000
         then previousTime + 24 * 3600 * 1000
         else previousTime)"

text \<open>
  The callback of \<^verbatim>\<open>data.replace(rainDataRegex, ...)\<close>, on the pair of \<^verbatim>\<open>result\<close> and
  \<^verbatim>\<open>previousTime\<close> (\<open>None\<close> while it is undefined; a \<^verbatim>\<open>Date\<close> object is always truthy).
\<close>

fun replace_callback ::
  "int \<Rightarrow> sample list \<times> int option \<Rightarrow> string \<times> string \<Rightarrow> sample list \<times> int option" where
  "replace_callback now (result, previousTime) (v, tm) =
     (let amount = amount_of v;
          t = (case previousTime of
                 None \<Rightarrow> firstTime now tm
               | Some p \<Rightarrow> p + 300 * 1000)
      in (result @ [\<lparr>rawValue = v, amount = amount, time = t,
                      indication = getRainIndication (NumberArg (Finite amount))\<rparr>],
          Some t))"

text \<open>The array \<^verbatim>\<open>result\<close> when the callback of \<^verbatim>\<open>getRawRainData().then\<close> reaches line 169.\<close>

definition parseRainData :: "int \<Rightarrow> string \<Rightarrow> sample list" where
  "parseRainData now data =
     (if data \<noteq> []
      then fst (foldl (replace_callback now) ([], None) (rainDataRegex_matches data))
      else [])"

section \<open>The object, the variables of the module and the timers\<close>

text \<open>
  One record for everything the functions of the module read and write: the fields of the
  object (\<^verbatim>\<open>this.lat\<close>, \<^verbatim>\<open>this.lon\<close>, \<^verbatim>\<open>this.requestCacheTimeout\<close>, \<^verbatim>\<open>this._lat\<close>,
  \<^verbatim>\<open>this._lon\<close>, \<^verbatim>\<open>this.rainData\<close>, \<^verbatim>\<open>this.rainDataCacheTimeout\<close>), the three
  \<^verbatim>\<open>let\<close> variables of the enclosing function (\<^verbatim>\<open>rainDataCache\<close>, \<^verbatim>\<open>feedDataCache\<close>,
  \<^verbatim>\<open>nearestWeatherStationId\<close>), and the part of the event loop the module uses: the timers
  that are pending and the requests that are under way. \<open>None\<close> stands for \<^verbatim>\<open>undefined\<close>
  and for \<^verbatim>\<open>null\<close>.
\<close>

text \<open>
  The values of the parsed feed: what the XML parser builds (strings, objects, arrays) and
  what the module writes into it (\<^verbatim>\<open>undefined\<close>, the number 0, a date). An object is the
  list of its own properties.
\<close>

datatype jsval =
    Undefined
  | Number real
  | String string
  | Object "(string \<times> jsval) list"
  | Array "jsval list"
  | InvalidDate \<comment> \<open>a \<^verbatim>\<open>Date\<close> object whose time value is \<^verbatim>\<open>NaN\<close>\<close>

text \<open>The two callbacks the module hands to \<^verbatim>\<open>setTimeout\<close>.\<close>

datatype timer_callback =
    ClearRainData \<comment> \<open>\<^verbatim>\<open>() => this.rainData = null\<close>\<close>
  | ClearFeedDataCache \<comment> \<open>\<^verbatim>\<open>() => feedDataCache = null\<close>\<close>

record timer =
  handle :: nat
  callback :: timer_callback
  delay :: int

record state =
  lat :: real
  lon :: real
  requestCacheTimeout :: int
  last_lat :: "real option" \<comment> \<open>\<^verbatim>\<open>this._lat\<close>\<close>
  last_lon :: "real option" \<comment> \<open>\<^verbatim>\<open>this._lon\<close>\<close>
  rainData :: "sample list option"
  rainDataCacheTimeout :: "nat option"
  rainDataCache :: "sample list option"
  feedDataCache :: "(nat \<times> jsval promise) option" \<comment> \<open>the promise, with its identity\<close>
  nearestWeatherStationId :: "jsval option"
  timers :: "timer list" \<comment> \<open>pending timers\<close>
  next_handle :: nat
  rain_requests :: nat \<comment> \<open>calls of \<^verbatim>\<open>getRawRainData\<close> not yet settled\<close>
  feed_requests :: "nat list" \<comment> \<open>promises of \<^verbatim>\<open>getFeedData\<close> not yet settled\<close>
  next_promise :: nat

text \<open>\<^verbatim>\<open>setTimeout\<close> returns a fresh handle; \<^verbatim>\<open>clearTimeout\<close> of \<^verbatim>\<open>undefined\<close> or of a
  timer that has fired does nothing.\<close>

definition setTimeout :: "timer_callback \<Rightarrow> int \<Rightarrow> state \<Rightarrow> nat \<times> state" where
  "setTimeout cb ms s =
     (next_handle s,
      s\<lparr>timers := timers s @ [\<lparr>handle = next_handle s, callback = cb, delay = ms\<rparr>],
        next_handle := Suc (next_handle s)\<rparr>)"

definition clearTimeout :: "nat option \<Rightarrow> state \<Rightarrow> state" where
  "clearTimeout h s =
     (case h of
        None \<Rightarrow> s
      | Some i \<Rightarrow> s\<lparr>timers := filter (\<lambda>t. handle t \<noteq> i) (timers s)\<rparr>)"

text \<open>What a timer does when it fires.\<close>

fun run_callback :: "timer_callback \<Rightarrow> state \<Rightarrow> state" where
  "run_callback ClearRainData s = s\<lparr>rainData := None\<rparr>"
| "run_callback ClearFeedDataCache s = s\<lparr>feedDataCache := None\<rparr>"

section \<open>Construction and location\<close>

text \<open>
  The \<^verbatim>\<open>config\<close> object: \<^verbatim>\<open>lat\<close> and \<^verbatim>\<open>lon\<close> are numbers or absent,
  \<^verbatim>\<open>requestCacheTimeout\<close> is a whole number of milliseconds or absent.
\<close>

record config =
  cfg_lat :: "jsnum option"
  cfg_lon :: "jsnum option"
  cfg_requestCacheTimeout :: "int option"

text \<open>Truthiness of a number that may be absent: \<^verbatim>\<open>undefined\<close>, \<^verbatim>\<open>NaN\<close> and 0 are falsy.\<close>

fun truthy_num :: "jsnum option \<Rightarrow> bool" where
  "truthy_num None = False"
| "truthy_num (Some NaN) = False"
| "truthy_num (Some (Num r)) = (r \<noteq> 0)"

text \<open>\<^verbatim>\<open>Math.round(x * 100) / 100\<close> on a number that may be absent or \<^verbatim>\<open>NaN\<close>.\<close>

fun round2_num :: "jsnum option \<Rightarrow> jsnum" where
  "round2_num (Some (Num r)) = Num (round2 r)"
| "round2_num _ = NaN"

text \<open>
  The constructor (lines 10 to 23), called with or without \<^verbatim>\<open>new\<close>. A constructor that
  returns an object hands that object to its caller, so \<^verbatim>\<open>return new Error(...)\<close> makes the
  \<^verbatim>\<open>Error\<close> the result. The variables of the module start undefined.
\<close>

definition Buienradar :: "config option \<Rightarrow> error + state" where
  "Buienradar cfg =
     (case cfg of
        None \<Rightarrow> Inl InitError
      | Some c \<Rightarrow>
          if \<not> truthy_num (cfg_lat c) \<or> \<not> truthy_num (cfg_lon c) then Inl InitError
          else (case (round2_num (cfg_lat c), round2_num (cfg_lon c)) of
                  (Num la, Num lo) \<Rightarrow>
                    Inr \<lparr>lat = la, lon = lo,
                         requestCacheTimeout =
                           (case cfg_requestCacheTimeout c of
                              None \<Rightarrow> 1000
                            | Some ms \<Rightarrow> if ms \<noteq> 0 then ms else 1000),
                         last_lat = None, last_lon = None,
                         rainData = None, rainDataCacheTimeout = None,
                         rainDataCache = None, feedDataCache = None,
                         nearestWeatherStationId = None,
                         timers = [], next_handle = 0,
                         rain_requests = 0, feed_requests = [], next_promise = 0\<rparr>
                | _ \<Rightarrow> Inl InitError))"

text \<open>\<^verbatim>\<open>resetCache\<close> (lines 405 to 408) assigns the two variables of the module.\<close>

definition resetCache :: "state \<Rightarrow> state" where
  "resetCache s = s\<lparr>rainDataCache := None, nearestWeatherStationId := None\<rparr>"

text \<open>\<^verbatim>\<open>checkLocationChange\<close> (lines 393 to 400).\<close>

definition checkLocationChange :: "state \<Rightarrow> state" where
  "checkLocationChange s =
     (if \<not> (last_lat s = Some (lat s) \<and> Some (lon s) = last_lon s)
      then resetCache (s\<lparr>last_lat := Some (lat s), last_lon := Some (lon s)\<rparr>)
      else s)"

text \<open>
  The arguments of \<^verbatim>\<open>setLatLon\<close>: a number, nothing, or an object with the properties
  \<^verbatim>\<open>lat\<close> and \<^verbatim>\<open>lon\<close>.
\<close>

datatype location_arg = ArgUndefined | ArgNumber jsnum | ArgObject "jsnum option" "jsnum option"

fun truthy_arg :: "location_arg \<Rightarrow> bool" where
  "truthy_arg ArgUndefined = False"
| "truthy_arg (ArgNumber n) = truthy_num (Some n)"
| "truthy_arg (ArgObject _ _) = True"

text \<open>\<^verbatim>\<open>isNaN\<close> converts its argument to a number first: \<^verbatim>\<open>undefined\<close> and a plain object
  convert to \<^verbatim>\<open>NaN\<close>.\<close>

fun to_number :: "location_arg \<Rightarrow> jsnum" where
  "to_number (ArgNumber n) = n"
| "to_number _ = NaN"

fun arg_of :: "jsnum option \<Rightarrow> location_arg" where
  "arg_of None = ArgUndefined"
| "arg_of (Some n) = ArgNumber n"

text \<open>\<^verbatim>\<open>setLatLon\<close> (lines 40 to 51). The \<^verbatim>\<open>throw\<close> is the \<open>Inl\<close>.\<close>

definition setLatLon :: "location_arg \<Rightarrow> location_arg \<Rightarrow> state \<Rightarrow> error + state" where
  "setLatLon lat0 lon0 s =
     (let (lat1, lon1) =
            (case lat0 of
               ArgObject la lo \<Rightarrow>
                 if \<not> truthy_arg lon0 \<and> truthy_num la then (arg_of la, arg_of lo) else (lat0, lon0)
             | _ \<Rightarrow> (lat0, lon0))
      in case (to_number lat1, to_number lon1) of
           (Num la, Num lo) \<Rightarrow> Inr (resetCache (s\<lparr>lat := round2 la, lon := round2 lo\<rparr>))
         | _ \<Rightarrow> Inl IncorrectLocation)"

section \<open>Rain data\<close>

text \<open>
  \<^verbatim>\<open>getRawRainData\<close> (lines 86 to 117). \<open>replies\<close> are the bodies the two requests hand to
  their callbacks before the timer of 5000 ms fires, in the order of arrival (\<open>None\<close> for a
  reply without a body). The first promise of the race that settles decides; when none of
  the request promises has settled, the timer rejects. \<^verbatim>\<open>responseCounter\<close> is declared with
  the value 0 and assigned nowhere.
\<close>

datatype endpoint = Raintext_azurewebsites | Getrr_buienradar

definition apiUrls :: "endpoint list" where
  "apiUrls = [Raintext_azurewebsites, Getrr_buienradar]"

fun race :: "nat \<Rightarrow> nat \<Rightarrow> string option list \<Rightarrow> string promise" where
  "race responseCounter n [] = Rejected Timeout"
| "race responseCounter n (body # later) =
     (case body of
        Some b \<Rightarrow>
          if b \<noteq> [] \<and> matches_rainDataRegex b then Resolved b
          else if responseCounter = n then Rejected NoUrlReceivedRainData
          else race responseCounter n later
      | None \<Rightarrow>
          if responseCounter = n then Rejected NoUrlReceivedRainData
          else race responseCounter n later)"

definition raceOfRequests :: "string option list \<Rightarrow> string promise" where
  "raceOfRequests replies = (let responseCounter = 0 in race responseCounter (length apiUrls) replies)"

definition getRawRainData :: "state \<Rightarrow> string option list \<Rightarrow> string promise" where
  "getRawRainData s replies =
     (if lat s = 0 \<or> lon s = 0 then Rejected LocationNotSet
      else raceOfRequests replies)"

text \<open>
  The callback of \<^verbatim>\<open>this.getRawRainData().then\<close> (lines 141 to 184): the promise it returns
  and the state it leaves.
\<close>

definition getRainData_then :: "int \<Rightarrow> string \<Rightarrow> state \<Rightarrow> sample list promise \<times> state" where
  "getRainData_then now data s =
     (let result = parseRainData now data
      in if length result > 1
         then (Resolved result,
               if requestCacheTimeout s \<noteq> 0
               then (let s1 = s\<lparr>rainData := Some result\<rparr>;
                         s2 = clearTimeout (rainDataCacheTimeout s1) s1;
                         (h, s3) = setTimeout ClearRainData (requestCacheTimeout s2) s2
                     in s3\<lparr>rainDataCacheTimeout := Some h\<rparr>)
               else s)
         else (Rejected CouldNotGetData, s\<lparr>rainData := None\<rparr>))"

text \<open>
  \<^verbatim>\<open>getRainData(forceRefresh)\<close> (lines 135 to 186), with the request it may start run to
  its end: \<open>now\<close> is the clock when the text is parsed, \<open>replies\<close> what the endpoints send.
\<close>

definition getRainData ::
  "bool \<Rightarrow> int \<Rightarrow> string option list \<Rightarrow> state \<Rightarrow> sample list promise \<times> state" where
  "getRainData forceRefresh now replies s =
     (let s1 = checkLocationChange s;
          fetched = (case getRawRainData s1 replies of
                       Resolved data \<Rightarrow> getRainData_then now data s1
                     | Rejected e \<Rightarrow> (Rejected e, s1)
                     | Pending \<Rightarrow> (Pending, s1))
      in case rainData s1 of
           Some cached \<Rightarrow>
             if \<not> forceRefresh \<and> requestCacheTimeout s1 \<noteq> 0 then (Resolved cached, s1)
             else fetched
         | None \<Rightarrow> fetched)"

section \<open>Feed data\<close>

subsection \<open>Reading and writing properties\<close>

text \<open>
  Truthiness, and the read \<^verbatim>\<open>v[k]\<close> of a property: a property the value does not have
  reads as \<^verbatim>\<open>undefined\<close>, and reading a property of \<^verbatim>\<open>undefined\<close> itself throws. Only
  own properties of objects are modelled; the names the module reads from strings, numbers
  and arrays of the feed (station fields, \<^verbatim>\<open>'$'\<close>) are no properties of those.
\<close>

fun truthy :: "jsval \<Rightarrow> bool" where
  "truthy Undefined = False"
| "truthy (Number r) = (r \<noteq> 0)"
| "truthy (String str) = (str \<noteq> [])"
| "truthy (Object _) = True"
| "truthy (Array _) = True"
| "truthy InvalidDate = True"

definition lookup :: "(string \<times> jsval) list \<Rightarrow> string \<Rightarrow> jsval" where
  "lookup kvs k = (case map_of kvs k of None \<Rightarrow> Undefined | Some v \<Rightarrow> v)"

fun read_prop :: "jsval \<Rightarrow> string \<Rightarrow> jsval" where
  "read_prop (Object kvs) k = lookup kvs k"
| "read_prop _ k = Undefined"

fun get_prop :: "jsval \<Rightarrow> string \<Rightarrow> error + jsval" where
  "get_prop Undefined k = Inl TypeError"
| "get_prop v k = Inr (read_prop v k)"

text \<open>The assignment \<^verbatim>\<open>o[k] = v\<close> and \<^verbatim>\<open>delete o[k]\<close> on the property list of an object.\<close>

definition assign :: "(string \<times> jsval) list \<Rightarrow> string \<Rightarrow> jsval \<Rightarrow> (string \<times> jsval) list" where
  "assign kvs k v =
     (if k \<in> fst ` set kvs then map (\<lambda>(k', v'). if k' = k then (k', v) else (k', v')) kvs
      else kvs @ [(k, v)])"

definition delete :: "(string \<times> jsval) list \<Rightarrow> string \<Rightarrow> (string \<times> jsval) list" where
  "delete kvs k = filter (\<lambda>(k', v'). k' \<noteq> k) kvs"

text \<open>The assignment \<^verbatim>\<open>o[k] = v\<close> where \<open>o\<close> is known to be an object.\<close>

fun assign_prop :: "jsval \<Rightarrow> string \<Rightarrow> jsval \<Rightarrow> jsval" where
  "assign_prop (Object kvs) k v = Object (assign kvs k v)"
| "assign_prop other k v = other"

subsection \<open>Fetching and caching\<close>

text \<open>
  The identifiers in scope in the body of \<^verbatim>\<open>getRawFeedData\<close> (lines 204 to 222), from the
  inside out: the parameters and the variable of the executor, the declarations of the
  enclosing anonymous function, the declarations of the module, and the parameters of the
  function Node wraps around every module.
\<close>

definition getRawFeedData_scope :: "string list" where
  "getRawFeedData_scope =
     [''resolve'', ''reject'', ''req'',
      ''rainDataRegex'', ''rainDataCache'', ''feedDataCache'', ''nearestWeatherStationId'',
      ''request'', ''geodist'', ''xmlParser'', ''Buienradar'',
      ''exports'', ''require'', ''module'', ''__filename'', ''__dirname'']"

text \<open>
  \<^verbatim>\<open>getRawFeedData\<close>. \<open>globals\<close> are the names of the properties of the global object,
  \<open>transport\<close> is what the request to the feed host ends with (the whole body, or the
  error of its \<^verbatim>\<open>'error'\<close> event). An identifier found neither in scope nor on the global
  object throws a \<^verbatim>\<open>ReferenceError\<close>; thrown inside the executor, it rejects the promise.
\<close>

definition getRawFeedData :: "string list \<Rightarrow> error + string \<Rightarrow> string promise" where
  "getRawFeedData globals transport =
     (if ''http'' \<in> set getRawFeedData_scope \<or> ''http'' \<in> set globals
      then (case transport of Inl e \<Rightarrow> Rejected e | Inr body \<Rightarrow> Resolved body)
      else Rejected (ReferenceError ''http''))"

text \<open>Settling the promise \<open>p\<close>, where \<^verbatim>\<open>feedDataCache\<close> still holds it.\<close>

definition settle :: "nat \<Rightarrow> jsval promise \<Rightarrow> state \<Rightarrow> state" where
  "settle p v s =
     (case feedDataCache s of
        None \<Rightarrow> s
      | Some (q, _) \<Rightarrow> if q = p then s\<lparr>feedDataCache := Some (p, v)\<rparr> else s)"

text \<open>
  What happens when the promise \<open>p\<close> made by \<^verbatim>\<open>getFeedData\<close> (lines 233 to 250) settles:
  \<open>raw\<close> is the outcome of \<^verbatim>\<open>getRawFeedData\<close>, \<open>parseString\<close> what the XML parser hands
  to its callback for a text. The result is the settled promise and the state.
\<close>

definition getFeedData_then ::
  "nat \<Rightarrow> string promise \<Rightarrow> (string \<Rightarrow> error + jsval) \<Rightarrow> state \<Rightarrow> jsval promise \<times> state" where
  "getFeedData_then p raw parseString s0 =
     (let s = s0\<lparr>feed_requests := removeAll p (feed_requests s0)\<rparr>
      in case raw of
           Pending \<Rightarrow> (Pending, s0)
         | Rejected e \<Rightarrow> (Rejected e, settle p (Rejected e) s)
         | Resolved data \<Rightarrow>
             (case parseString data of
                Inl err \<Rightarrow> (Rejected err, (settle p (Rejected err) s)\<lparr>feedDataCache := None\<rparr>)
              | Inr result \<Rightarrow>
                  if \<not> (truthy result \<and> truthy (read_prop result ''buienradarnl'')
                          \<and> truthy (read_prop (read_prop result ''buienradarnl'') ''weergegevens''))
                  then (Rejected InvalidResponse,
                        (settle p (Rejected InvalidResponse) s)\<lparr>feedDataCache := None\<rparr>)
                  else (let weergegevens = read_prop (read_prop result ''buienradarnl'') ''weergegevens'';
                            s1 = settle p (Resolved weergegevens) s
                        in (Resolved weergegevens,
                            if requestCacheTimeout s1 \<noteq> 0
                            then snd (setTimeout ClearFeedDataCache (requestCacheTimeout s1) s1)
                            else s1))))"

text \<open>
  The part of \<^verbatim>\<open>getFeedData\<close> that runs at the call (lines 230 to 233): the cached promise,
  or a new pending one, stored in \<^verbatim>\<open>feedDataCache\<close>.
\<close>

definition getFeedData_call :: "state \<Rightarrow> (nat \<times> jsval promise) \<times> state" where
  "getFeedData_call s =
     (let p = next_promise s;
          fresh = ((p, Pending),
                   s\<lparr>feedDataCache := Some (p, Pending), next_promise := Suc p,
                     feed_requests := p # feed_requests s\<rparr>)
      in case feedDataCache s of
           Some cached \<Rightarrow> if requestCacheTimeout s \<noteq> 0 then (cached, s) else fresh
         | None \<Rightarrow> fresh)"

text \<open>
  \<^verbatim>\<open>getFeedData\<close>, with the request run to its end: what the promise it returns settles
  to, and the state then.
\<close>

definition getFeedData ::
  "string list \<Rightarrow> error + string \<Rightarrow> (string \<Rightarrow> error + jsval) \<Rightarrow> state \<Rightarrow> jsval promise \<times> state" where
  "getFeedData globals transport parseString s =
     (case getFeedData_call s of
        ((p, Pending), s1) \<Rightarrow> getFeedData_then p (getRawFeedData globals transport) parseString s1
      | ((p, settled), s1) \<Rightarrow> (settled, s1))"

subsection \<open>The nearest weather station\<close>

text \<open>
  \<^verbatim>\<open>findNearestWeatherStation\<close> (lines 288 to 313). The callback of the inner
  \<^verbatim>\<open>requireParams.forEach\<close>, on \<^verbatim>\<open>skip\<close>:
\<close>

definition skip_param :: "jsval \<Rightarrow> bool \<Rightarrow> string \<Rightarrow> bool" where
  "skip_param weatherStation skip param =
     (skip \<or> \<not> (truthy (read_prop weatherStation param) \<and> read_prop weatherStation param \<noteq> String ''-''))"

text \<open>
  The callback of \<^verbatim>\<open>weatherStationList.forEach\<close>, on the pair of \<^verbatim>\<open>result\<close> (with the
  index it has in the list) and \<^verbatim>\<open>nearestDistance\<close>. \<open>geodist\<close> is the function of that
  name from the package, from the two locations to a number.
\<close>

fun forEach_station ::
  "string list option \<Rightarrow> (real \<times> real \<Rightarrow> jsval \<times> jsval \<Rightarrow> real) \<Rightarrow> real \<times> real \<Rightarrow>
   (nat \<times> jsval) option \<times> real option \<Rightarrow> nat \<times> jsval \<Rightarrow> (nat \<times> jsval) option \<times> real option" where
  "forEach_station requireParams geodist location (result, nearestDistance) (i, weatherStation) =
     (if (case requireParams of
            None \<Rightarrow> False
          | Some params \<Rightarrow> foldl (skip_param weatherStation) False params)
      then (result, nearestDistance)
      else (let dist = geodist location (read_prop weatherStation ''lat'', read_prop weatherStation ''lon'')
            in if (case nearestDistance of None \<Rightarrow> True | Some d \<Rightarrow> d = 0 \<or> dist < d)
               then (Some (i, weatherStation), Some dist)
               else (result, nearestDistance)))"

definition findNearestWeatherStation ::
  "string list option \<Rightarrow> (real \<times> real \<Rightarrow> jsval \<times> jsval \<Rightarrow> real) \<Rightarrow> real \<times> real \<Rightarrow>
   jsval list \<Rightarrow> error + nat \<times> jsval" where
  "findNearestWeatherStation requireParams geodist location weatherStationList =
     (case fst (foldl (forEach_station requireParams geodist location) (None, None)
                  (zip [0..<length weatherStationList] weatherStationList)) of
        None \<Rightarrow> Inl NoNearestStation
      | Some found \<Rightarrow> Inr found)"

text \<open>
  The end of the executor (lines 329 to 333) on the station found, which is an object:
  the sentinel of \<^verbatim>\<open>regenMMPU\<close> becomes 0, and \<^verbatim>\<open>date\<close> becomes \<^verbatim>\<open>new Date(station)\<close>, the
  date of an object, which is no valid date.
\<close>

definition normalise_station :: "jsval \<Rightarrow> jsval" where
  "normalise_station st =
     (let st1 = (if read_prop st ''regenMMPU'' = String ''-'' then assign_prop st ''regenMMPU'' (Number 0)
                 else st)
      in assign_prop st1 ''date'' InvalidDate)"

text \<open>
  The callback of \<^verbatim>\<open>this.getFeedData().then\<close> in \<^verbatim>\<open>getNearestWeatherStationData\<close>
  (lines 284 to 335), on the feed data: the promise, the feed data as the callback leaves
  it (the station found is changed inside it), and the new value of
  \<^verbatim>\<open>nearestWeatherStationId\<close>. An exception thrown in the executor rejects the promise
  unless \<^verbatim>\<open>reject\<close> was called before; a station list that is no array has no
  \<^verbatim>\<open>forEach\<close>, and a station that is a string takes no new property. The elements of the
  list are objects or strings, as the parser builds them. The line
  \<^verbatim>\<open>requireParams.filter(param => param !== 'regenMMPU')\<close> builds a new array and drops it.
  In the last branch \<^verbatim>\<open>data.find\<close> is no function, whatever the feed holds.
\<close>

definition getNearestWeatherStationData_then ::
  "string list option \<Rightarrow> (real \<times> real \<Rightarrow> jsval \<times> jsval \<Rightarrow> real) \<Rightarrow> real \<times> real \<Rightarrow>
   jsval option \<Rightarrow> jsval \<Rightarrow> jsval promise \<times> jsval \<times> jsval option" where
  "getNearestWeatherStationData_then requireParams geodist location stationId data =
     (let actueel_weer = read_prop data ''actueel_weer'';
          weerstations = read_prop actueel_weer ''weerstations''
      in case (get_prop actueel_weer ''weerstations'', get_prop weerstations ''weerstation'') of
           (Inr _, Inr (Array weatherStationList)) \<Rightarrow>
             (let scan = findNearestWeatherStation requireParams geodist location weatherStationList;
                  finish = (\<lambda>found newId.
                    case found of
                      Inl e \<Rightarrow> (Rejected e, data, stationId)
                    | Inr (i, Object kvs) \<Rightarrow>
                        (let st = normalise_station (Object kvs)
                         in (Resolved st,
                             assign_prop data ''actueel_weer''
                               (assign_prop actueel_weer ''weerstations''
                                  (assign_prop weerstations ''weerstation''
                                     (Array (weatherStationList[i := st])))),
                             newId (Object kvs)))
                    | Inr (i, other) \<Rightarrow> (Rejected TypeError, data, newId other))
              in if (case requireParams of None \<Rightarrow> False | Some params \<Rightarrow> params \<noteq> [])
                 then finish scan (\<lambda>st. stationId)
                 else if \<not> (case stationId of None \<Rightarrow> False | Some v \<Rightarrow> truthy v)
                 then finish scan (\<lambda>st. Some (read_prop st ''stationcode''))
                 else (Rejected TypeError, data, stationId))
         | _ \<Rightarrow> (Rejected TypeError, data, stationId))"

text \<open>Writing what a callback did to the feed data back into the resolved cached promise.\<close>

definition write_feed :: "jsval \<Rightarrow> state \<Rightarrow> state" where
  "write_feed data s =
     (case feedDataCache s of
        Some (p, Resolved _) \<Rightarrow> s\<lparr>feedDataCache := Some (p, Resolved data)\<rparr>
      | _ \<Rightarrow> s)"

text \<open>\<^verbatim>\<open>getNearestWeatherStationData(requireParams)\<close> (lines 282 to 336).\<close>

definition getNearestWeatherStationData ::
  "string list option \<Rightarrow> (real \<times> real \<Rightarrow> jsval \<times> jsval \<Rightarrow> real) \<Rightarrow>
   string list \<Rightarrow> error + string \<Rightarrow> (string \<Rightarrow> error + jsval) \<Rightarrow> state \<Rightarrow> jsval promise \<times> state" where
  "getNearestWeatherStationData requireParams geodist globals transport parseString s =
     (case getFeedData globals transport parseString (checkLocationChange s) of
        (Resolved data, s1) \<Rightarrow>
          (case getNearestWeatherStationData_then requireParams geodist (lat s1, lon s1)
                  (nearestWeatherStationId s1) data of
             (res, data', stationId) \<Rightarrow>
               (res, (write_feed data' s1)\<lparr>nearestWeatherStationId := stationId\<rparr>))
      | (unresolved, s1) \<Rightarrow> (unresolved, s1))"

subsection \<open>Forecast and current weather\<close>

text \<open>The template literal \<^verbatim>\<open>`dag-plus${i}`\<close>: the number in decimal digits.\<close>

definition digit_char :: "nat \<Rightarrow> char" where
  "digit_char d = char_of (48 + d)"

function show_nat :: "nat \<Rightarrow> string" where
  "show_nat n = (if n < 10 then [digit_char n] else show_nat (n div 10) @ [digit_char (n mod 10)])"
  by pat_completeness auto
termination
  by (relation "measure id") auto

declare show_nat.simps [simp del]

definition dag_plus :: "nat \<Rightarrow> string" where
  "dag_plus i = ''dag-plus'' @ show_nat i"

text \<open>
  The \<^verbatim>\<open>while\<close> loop of \<^verbatim>\<open>getWeatherForecast\<close> (lines 368 to 373) on the properties of
  \<^verbatim>\<open>data.verwachting_meerdaags\<close>: push onto \<^verbatim>\<open>dagen\<close>, delete the key, count on.
\<close>

definition push_dagen :: "(string \<times> jsval) list \<Rightarrow> jsval \<Rightarrow> (string \<times> jsval) list" where
  "push_dagen kvs d =
     assign kvs ''dagen'' (case lookup kvs ''dagen'' of Array ds \<Rightarrow> Array (ds @ [d]) | other \<Rightarrow> other)"

definition other_keys :: "(string \<times> jsval) list \<Rightarrow> nat" where
  "other_keys kvs = length (filter (\<lambda>(k, v). k \<noteq> ''dagen'') kvs)"

function collect_days :: "nat \<Rightarrow> (string \<times> jsval) list \<Rightarrow> (string \<times> jsval) list" where
  "collect_days i kvs =
     (if truthy (lookup kvs (dag_plus i))
      then collect_days (Suc i) (delete (push_dagen kvs (lookup kvs (dag_plus i))) (dag_plus i))
      else kvs)"
  by pat_completeness auto

termination
proof (relation "measure (\<lambda>(i, kvs). other_keys kvs)", goal_cases)
  case 1
  show ?case by simp
next
  case (2 i kvs)
  let ?k = "dag_plus i"
  let ?d = "lookup kvs ?k"
  have neq: "?k \<noteq> ''dagen''"
    by (simp add: dag_plus_def)
  have le: "other_keys (delete xs k) \<le> other_keys xs" for xs k
    by (induction xs) (auto simp: other_keys_def delete_def)
  have less: "k \<in> fst ` set xs \<Longrightarrow> k \<noteq> ''dagen'' \<Longrightarrow> other_keys (delete xs k) < other_keys xs" for xs k
  proof (induction xs)
    case Nil
    then show ?case by simp
  next
    case (Cons x xs)
    obtain k' v' where x: "x = (k', v')" by (cases x)
    show ?case
    proof (cases "k' = k")
      case True
      have "other_keys (delete (x # xs) k) = other_keys (delete xs k)"
        using True by (simp add: x other_keys_def delete_def)
      also have "\<dots> \<le> other_keys xs" by (rule le)
      also have "\<dots> < other_keys (x # xs)"
        using True Cons.prems(2) by (simp add: x other_keys_def)
      finally show ?thesis .
    next
      case False
      with Cons.prems have "k \<in> fst ` set xs" by (auto simp: x)
      with Cons.IH Cons.prems(2) have "other_keys (delete xs k) < other_keys xs" by simp
      with False show ?thesis by (simp add: x other_keys_def delete_def)
    qed
  qed
  have push: "other_keys (push_dagen kvs ?d) = other_keys kvs"
  proof -
    have "length (filter (\<lambda>(k, v). k \<noteq> ''dagen'') (map (\<lambda>(k', v'). if k' = ''dagen'' then (k', w) else (k', v')) xs))
            = length (filter (\<lambda>(k, v). k \<noteq> ''dagen'') xs)" for xs :: "(string \<times> jsval) list" and w
      by (induction xs) auto
    then show ?thesis
      by (simp add: push_dagen_def assign_def other_keys_def)
  qed
  from 2 have "map_of kvs ?k \<noteq> None"
    by (auto simp: lookup_def split: option.splits)
  then have "?k \<in> fst ` set kvs"
    by (simp add: map_of_eq_None_iff)
  then have "?k \<in> fst ` set (push_dagen kvs ?d)"
    by (auto simp: push_dagen_def assign_def image_iff split: prod.splits)
  then have "other_keys (delete (push_dagen kvs ?d) ?k) < other_keys (push_dagen kvs ?d)"
    using neq by (rule less)
  with push show ?case by simp
qed

declare collect_days.simps [simp del]


text \<open>
  The callback of \<^verbatim>\<open>this.getFeedData().then\<close> in \<^verbatim>\<open>getWeatherForecast\<close> (lines 365 to
  377), on the feed data: the promise, and the feed data as the callback leaves it, also
  when it throws on the way. \<^verbatim>\<open>data.verwachting_meerdaags\<close> must be an object: assigning
  \<^verbatim>\<open>dagen\<close> to \<^verbatim>\<open>undefined\<close> or, in strict mode, to a string throws.
\<close>

definition getWeatherForecast_then :: "jsval \<Rightarrow> jsval promise \<times> jsval" where
  "getWeatherForecast_then data =
     (case read_prop data ''verwachting_meerdaags'' of
        Object kvs \<Rightarrow>
          (let kvs1 = assign kvs ''dagen'' (Array []);
               kvs2 = collect_days 1 kvs1
           in case get_prop (lookup kvs2 ''tekst_middellang'') ''$'' of
                Inl e \<Rightarrow> (Rejected e, assign_prop data ''verwachting_meerdaags'' (Object kvs2))
              | Inr middellang \<Rightarrow>
                  (let kvs3 = assign kvs2 ''tekst_middellang'' middellang
                   in case get_prop (lookup kvs3 ''tekst_lang'') ''$'' of
                        Inl e \<Rightarrow>
                          (Rejected e, assign_prop data ''verwachting_meerdaags'' (Object kvs3))
                      | Inr lang \<Rightarrow>
                          (let kvs4 = assign kvs3 ''tekst_lang'' lang
                           in (Resolved (Object kvs4),
                               assign_prop data ''verwachting_meerdaags'' (Object kvs4)))))
      | _ \<Rightarrow> (Rejected TypeError, data))"

text \<open>\<^verbatim>\<open>getWeatherForecast()\<close> (lines 364 to 378).\<close>

definition getWeatherForecast ::
  "string list \<Rightarrow> error + string \<Rightarrow> (string \<Rightarrow> error + jsval) \<Rightarrow> state \<Rightarrow> jsval promise \<times> state" where
  "getWeatherForecast globals transport parseString s =
     (case getFeedData globals transport parseString s of
        (Resolved data, s1) \<Rightarrow>
          (case getWeatherForecast_then data of
             (res, data') \<Rightarrow> (res, write_feed data' s1))
      | (unresolved, s1) \<Rightarrow> (unresolved, s1))"

text \<open>\<^verbatim>\<open>getCurrentWeather()\<close> (lines 384 to 388).\<close>

definition getCurrentWeather ::
  "string list \<Rightarrow> error + string \<Rightarrow> (string \<Rightarrow> error + jsval) \<Rightarrow> state \<Rightarrow> jsval promise \<times> state" where
  "getCurrentWeather globals transport parseString s =
     (case getFeedData globals transport parseString s of
        (Resolved data, s1) \<Rightarrow> (Resolved (read_prop data ''verwachting_vandaag''), s1)
      | (unresolved, s1) \<Rightarrow> (unresolved, s1))"

section \<open>Calls, replies and timers in any order\<close>

text \<open>
  The functions above run a call and its request in one piece. Between the call and the
  reply other calls, other replies and timers may run; here each of them is one event.
  A call of \<^verbatim>\<open>getRainData\<close> runs up to the start of the request, a reply runs the callbacks
  of one request under way, a timer that fires runs its callback. \<^verbatim>\<open>getFeedData\<close> stands also
  for the three accessors that call it. \<^verbatim>\<open>setLatLon\<close> that throws leaves the state.
\<close>

datatype event =
    GetRainData bool
  | RainDataArrives int "string option list"
  | GetFeedData
  | FeedDataArrives nat "error + string"
  | TimerFires nat
  | SetLatLon location_arg location_arg

text \<open>The part of \<^verbatim>\<open>getRainData\<close> that runs at the call (lines 136 to 140).\<close>

definition getRainData_call :: "bool \<Rightarrow> state \<Rightarrow> state" where
  "getRainData_call forceRefresh s =
     (let s1 = checkLocationChange s
      in if \<not> forceRefresh \<and> requestCacheTimeout s1 \<noteq> 0 \<and> rainData s1 \<noteq> None then s1
         else if lat s1 = 0 \<or> lon s1 = 0 then s1
         else s1\<lparr>rain_requests := Suc (rain_requests s1)\<rparr>)"

text \<open>What the replies of one request do: the race settles, and \<^verbatim>\<open>then\<close> runs if it resolved.\<close>

definition getRainData_settle :: "int \<Rightarrow> string option list \<Rightarrow> state \<Rightarrow> state" where
  "getRainData_settle now replies s =
     (case raceOfRequests replies of
        Resolved data \<Rightarrow> snd (getRainData_then now data s)
      | _ \<Rightarrow> s)"

fun step :: "string list \<Rightarrow> (string \<Rightarrow> error + jsval) \<Rightarrow> event \<Rightarrow> state \<Rightarrow> state option" where
  "step globals parseString (GetRainData forceRefresh) s = Some (getRainData_call forceRefresh s)"
| "step globals parseString (RainDataArrives now replies) s =
     (if rain_requests s = 0 then None
      else Some (getRainData_settle now replies (s\<lparr>rain_requests := rain_requests s - 1\<rparr>)))"
| "step globals parseString GetFeedData s = Some (snd (getFeedData_call s))"
| "step globals parseString (FeedDataArrives p transport) s =
     (if p \<in> set (feed_requests s)
      then Some (snd (getFeedData_then p (getRawFeedData globals transport) parseString s))
      else None)"
| "step globals parseString (TimerFires h) s =
     (case filter (\<lambda>t. handle t = h) (timers s) of
        [] \<Rightarrow> None
      | t # _ \<Rightarrow> Some (run_callback (callback t) (s\<lparr>timers := filter (\<lambda>t. handle t \<noteq> h) (timers s)\<rparr>)))"
| "step globals parseString (SetLatLon lat0 lon0) s =
     (case setLatLon lat0 lon0 s of Inl e \<Rightarrow> Some s | Inr s' \<Rightarrow> Some s')"

text \<open>A sequence of events from a state; \<open>None\<close> when an event cannot happen there.\<close>

fun run :: "string list \<Rightarrow> (string \<Rightarrow> error + jsval) \<Rightarrow> event list \<Rightarrow> state \<Rightarrow> state option" where
  "run globals parseString [] s = Some s"
| "run globals parseString (e # es) s =
     (case step globals parseString e s of
        None \<Rightarrow> None
      | Some s' \<Rightarrow> run globals parseString es s')"

text \<open>The pending timers of one cache slot, by their callback.\<close>

definition pending :: "timer_callback \<Rightarrow> state \<Rightarrow> timer list" where
  "pending cb s = filter (\<lambda>t. callback t = cb) (timers s)"

text \<open>
  What holds of the timers in every state the events can reach: the rain slot has at most
  one pending timer, the one \<^verbatim>\<open>this.rainDataCacheTimeout\<close> names; the feed slot has at most
  one, and only while \<^verbatim>\<open>feedDataCache\<close> holds a promise and no request is under way; a
  request is under way only while \<^verbatim>\<open>feedDataCache\<close> holds a promise, and only one at a time.
\<close>

definition timers_ok :: "state \<Rightarrow> bool" where
  "timers_ok s =
     (requestCacheTimeout s \<noteq> 0
      \<and> length (pending ClearRainData s) \<le> 1
      \<and> list_all (\<lambda>t. rainDataCacheTimeout s = Some (handle t)) (pending ClearRainData s)
      \<and> length (pending ClearFeedDataCache s) \<le> 1
      \<and> (pending ClearFeedDataCache s = [] \<or> (feedDataCache s \<noteq> None \<and> feed_requests s = []))
      \<and> (feed_requests s = [] \<or> feedDataCache s \<noteq> None)
      \<and> length (feed_requests s) \<le> 1)"

section \<open>Inputs for the examples\<close>

text \<open>
  The coordinates are those of the script beside the library; the rain text is three lines
  as the provider sends them. \<open>example_state\<close> is the state the constructor makes of
  \<open>example_config\<close>.
\<close>

definition example_config :: config where
  "example_config =
     \<lparr>cfg_lat = Some (Num 52.221537), cfg_lon = Some (Num 6.893662),
      cfg_requestCacheTimeout = None\<rparr>"

definition example_state :: state where
  "example_state =
     \<lparr>lat = 52.22, lon = 6.89, requestCacheTimeout = 1000,
      last_lat = None, last_lon = None,
      rainData = None, rainDataCacheTimeout = None,
      rainDataCache = None, feedDataCache = None,
      nearestWeatherStationId = None,
      timers = [], next_handle = 0,
      rain_requests = 0, feed_requests = [], next_promise = 0\<rparr>"

definition example_text :: string where
  "example_text = ''55|14:30'' @ [CHR 0x0A] @ ''60|14:35'' @ [CHR 0x0A] @ ''70|14:40''"

text \<open>14:32 on day 20000 after the epoch, on the local clock.\<close>

definition example_now :: int where
  "example_now = 20000 * msPerDay + 14 * 3600000 + 32 * 60000"

definition midnight_text :: string where
  "midnight_text = ''000|00:05'' @ [CHR 0x0A] @ ''000|00:10''"

text \<open>23:50 on the same day.\<close>

definition midnight_now :: int where
  "midnight_now = 20000 * msPerDay + 23 * 3600000 + 50 * 60000"

text \<open>
  The state after \<^verbatim>\<open>getRainData()\<close> has fetched and cached \<open>example_text\<close>, and that
  state after \<^verbatim>\<open>setLatLon(51.4416, 5.4697)\<close>.
\<close>

definition example_cached_state :: state where
  "example_cached_state =
     snd (getRainData False example_now [None, Some example_text] example_state)"

definition example_moved_state :: state where
  "example_moved_state = resetCache (example_cached_state\<lparr>lat := 51.44, lon := 5.47\<rparr>)"

text \<open>
  Names of properties of the global object of Node, a feed with two stations and two
  forecast days as the XML parser builds it, a parser that returns that feed, and a distance
  function that puts the first station nearest. \<open>example_feed_state\<close> is the state after
  \<^verbatim>\<open>getFeedData\<close> has cached that feed, \<open>example_forecast\<close> what the first
  \<^verbatim>\<open>getWeatherForecast\<close> resolves with.
\<close>

definition node_globals :: "string list" where
  "node_globals =
     [''global'', ''globalThis'', ''process'', ''console'', ''Buffer'',
      ''setTimeout'', ''clearTimeout'', ''setInterval'', ''clearInterval'',
      ''setImmediate'', ''clearImmediate'', ''Promise'', ''Math'', ''Date'', ''Error'',
      ''Object'', ''Array'', ''String'', ''Number'', ''isNaN'', ''parseInt'', ''parseFloat'']"

definition station_twenthe :: jsval where
  "station_twenthe =
     Object [(''stationcode'', String ''6290''), (''lat'', String ''52.27''), (''lon'', String ''6.90''),
             (''luchtdruk'', String ''1015.2''), (''regenMMPU'', String ''-'')]"

definition station_deelen :: jsval where
  "station_deelen =
     Object [(''stationcode'', String ''6275''), (''lat'', String ''52.07''), (''lon'', String ''5.88''),
             (''luchtdruk'', String ''1014.8''), (''regenMMPU'', String ''0.2'')]"

definition example_forecast_block :: jsval where
  "example_forecast_block =
     Object [(''tekst_middellang'',
                Object [(''_'', String ''Wisselvallig''), (''$'', Object [(''periode'', String ''vrijdag'')])]),
             (''tekst_lang'',
                Object [(''_'', String ''Zachter''), (''$'', Object [(''periode'', String ''woensdag'')])]),
             (''dag-plus1'', Object [(''dagweek'', String ''vr''), (''maxtemp'', String ''21'')]),
             (''dag-plus2'', Object [(''dagweek'', String ''za''), (''maxtemp'', String ''19'')]),
             (''dag-plus3'', Object [(''dagweek'', String ''zo''), (''maxtemp'', String ''18'')]),
             (''dag-plus4'', Object [(''dagweek'', String ''ma''), (''maxtemp'', String ''20'')]),
             (''dag-plus5'', Object [(''dagweek'', String ''di''), (''maxtemp'', String ''22'')])]"

definition example_feed :: jsval where
  "example_feed =
     Object [(''actueel_weer'',
                Object [(''weerstations'',
                   Object [(''weerstation'', Array [station_twenthe, station_deelen])])]),
             (''verwachting_meerdaags'', example_forecast_block),
             (''verwachting_vandaag'', Object [(''titel'', String ''Zonnig'')])]"

definition example_parseString :: "string \<Rightarrow> error + jsval" where
  "example_parseString body = Inr (Object [(''buienradarnl'', Object [(''weergegevens'', example_feed)])])"

definition example_feed_state :: state where
  "example_feed_state =
     example_state\<lparr>feedDataCache := Some (0, Resolved example_feed), next_promise := 1,
       timers := [\<lparr>handle = 0, callback = ClearFeedDataCache, delay = 1000\<rparr>], next_handle := 1\<rparr>"

definition example_geodist :: "real \<times> real \<Rightarrow> jsval \<times> jsval \<Rightarrow> real" where
  "example_geodist location station = (if fst station = String ''52.27'' then 3 else 60)"

definition example_forecast :: jsval where
  "example_forecast =
     Object [(''tekst_middellang'', Object [(''periode'', String ''vrijdag'')]),
             (''tekst_lang'', Object [(''periode'', String ''woensdag'')]),
             (''dagen'', Array [Object [(''dagweek'', String ''vr''), (''maxtemp'', String ''21'')],
                                Object [(''dagweek'', String ''za''), (''maxtemp'', String ''19'')],
                                Object [(''dagweek'', String ''zo''), (''maxtemp'', String ''18'')],
                                Object [(''dagweek'', String ''ma''), (''maxtemp'', String ''20'')],
                                Object [(''dagweek'', String ''di''), (''maxtemp'', String ''22'')]])]"

text \<open>
  A feed whose two texts have no attributes, so that the parser makes plain strings of
  them; the state with that feed cached; what the first \<^verbatim>\<open>getWeatherForecast\<close> resolves with
  there, and the state it leaves.
\<close>

definition plain_text_feed :: jsval where
  "plain_text_feed =
     Object [(''verwachting_meerdaags'',
                Object [(''tekst_middellang'', String ''Wisselvallig''),
                        (''tekst_lang'', String ''Zachter''),
                        (''dag-plus1'', Object [(''dagweek'', String ''vr''), (''maxtemp'', String ''21'')]),
                        (''dag-plus2'', Object [(''dagweek'', String ''za''), (''maxtemp'', String ''19'')])]),
             (''verwachting_vandaag'', Object [(''titel'', String ''Zonnig'')])]"

definition plain_text_state :: state where
  "plain_text_state =
     example_state\<lparr>feedDataCache := Some (0, Resolved plain_text_feed), next_promise := 1,
       timers := [\<lparr>handle = 0, callback = ClearFeedDataCache, delay = 1000\<rparr>], next_handle := 1\<rparr>"

definition plain_text_forecast :: jsval where
  "plain_text_forecast =
     Object [(''tekst_middellang'', Undefined),
             (''tekst_lang'', Undefined),
             (''dagen'', Array [Object [(''dagweek'', String ''vr''), (''maxtemp'', String ''21'')],
                                Object [(''dagweek'', String ''za''), (''maxtemp'', String ''19'')]])]"

definition plain_text_state_after :: state where
  "plain_text_state_after =
     plain_text_state\<lparr>feedDataCache :=
       Some (0, Resolved (assign_prop plain_text_feed ''verwachting_meerdaags'' plain_text_forecast))\<rparr>"

text \<open>
  Six events on the example object: a rain call, a feed call, the rain reply, a forced rain
  call, the feed reply, the second rain reply; and the state they lead to on a host that
  binds \<^verbatim>\<open>http\<close>.
\<close>

definition example_events :: "event list" where
  "example_events =
     [GetRainData False,
      GetFeedData,
      RainDataArrives example_now [None, Some example_text],
      GetRainData True,
      FeedDataArrives 0 (Inr ''<buienradarnl/>''),
      RainDataArrives (example_now + 400) [Some example_text]]"

definition example_final_state :: state where
  "example_final_state =
     example_state\<lparr>last_lat := Some 52.22, last_lon := Some 6.89,
       rainData := Some (parseRainData (example_now + 400) example_text),
       rainDataCacheTimeout := Some 2,
       feedDataCache := Some (0, Resolved example_feed),
       timers := [\<lparr>handle = 1, callback = ClearFeedDataCache, delay = 1000\<rparr>,
                  \<lparr>handle = 2, callback = ClearRainData, delay = 1000\<rparr>],
       next_handle := 3, next_promise := 1\<rparr>"

text \<open>The sample that token \<open>i\<close> of the list \<open>toks\<close> of matches becomes.\<close>

definition sample_at :: "int \<Rightarrow> (string \<times> string) list \<Rightarrow> nat \<Rightarrow> sample" where
  "sample_at now toks i =
     \<lparr>rawValue = fst (toks ! i), amount = amount_of (fst (toks ! i)),
      time = firstTime now (snd (toks ! 0)) + int i * (300 * 1000),
      indication = getRainIndication (NumberArg (Finite (amount_of (fst (toks ! i)))))\<rparr>"

section \<open>Properties of the rain indication\<close>

lemma getRainIndication_Finite:
  "getRainIndication (NumberArg (Finite a)) =
     (if a < 0.1 then Indicator (NO_RAIN rainIndicators)
      else if a < 2.5 then Indicator (LIGHT_RAIN rainIndicators)
      else if a < 10 then Indicator (MODERATE_RAIN rainIndicators)
      else if a < 50 then Indicator (HEAVY_RAIN rainIndicators)
      else Indicator (VIOLENT_RAIN rainIndicators))"
  by (simp add: getRainIndication_def isNaN_def less_than_def)

lemma getRainIndication_ToNumber:
  "getRainIndication v = getRainIndication (NumberArg (ToNumber v))"
  by (simp add: getRainIndication_def isNaN_def less_than_def)

lemma getRainIndication_JsFalse:
  "getRainIndication v = JsFalse \<longleftrightarrow> ToNumber v = NotANumber"
  by (simp add: getRainIndication_def isNaN_def)

text \<open>
  C8, as the code has it. \<^verbatim>\<open>getRainIndication\<close> is total and monotonic over non-negative
  numeric amounts: every amount gets exactly one of the five indicators, decided by the
  left-closed, right-open ladder \<open>[0, 0.1)\<close>, \<open>[0.1, 2.5)\<close>, \<open>[2.5, 10)\<close>, \<open>[10, 50)\<close>,
  \<open>[50, \<infinity>)\<close>; a larger amount never gets a smaller indicator; the eight boundary values
  are classified as listed. The result is \<^verbatim>\<open>false\<close> exactly for an argument that converts to
  \<^verbatim>\<open>NaN\<close> (\<^verbatim>\<open>NaN\<close> itself, \<^verbatim>\<open>undefined\<close>, a plain object, a string that is no numeric
  literal); every other argument is classified as the number it converts to.
\<close>

theorem getRainIndication_ladder:
  fixes a b :: real
  assumes "0 \<le> a" and "a \<le> b"
  shows "getRainIndication (NumberArg (Finite a)) \<in> Indicator `
           {NO_RAIN rainIndicators, LIGHT_RAIN rainIndicators, MODERATE_RAIN rainIndicators,
            HEAVY_RAIN rainIndicators, VIOLENT_RAIN rainIndicators}
    \<and> (\<forall>i j. getRainIndication (NumberArg (Finite a)) = Indicator i \<longrightarrow>
           getRainIndication (NumberArg (Finite b)) = Indicator j \<longrightarrow> i \<le> j)
    \<and> (getRainIndication (NumberArg (Finite a)) = Indicator (NO_RAIN rainIndicators) \<longleftrightarrow> a < 0.1)
    \<and> (getRainIndication (NumberArg (Finite a)) = Indicator (LIGHT_RAIN rainIndicators)
          \<longleftrightarrow> 0.1 \<le> a \<and> a < 2.5)
    \<and> (getRainIndication (NumberArg (Finite a)) = Indicator (MODERATE_RAIN rainIndicators)
          \<longleftrightarrow> 2.5 \<le> a \<and> a < 10)
    \<and> (getRainIndication (NumberArg (Finite a)) = Indicator (HEAVY_RAIN rainIndicators)
          \<longleftrightarrow> 10 \<le> a \<and> a < 50)
    \<and> (getRainIndication (NumberArg (Finite a)) = Indicator (VIOLENT_RAIN rainIndicators)
          \<longleftrightarrow> 50 \<le> a)
    \<and> getRainIndication (NumberArg (Finite 0.099)) = Indicator (NO_RAIN rainIndicators)
    \<and> getRainIndication (NumberArg (Finite 0.1)) = Indicator (LIGHT_RAIN rainIndicators)
    \<and> getRainIndication (NumberArg (Finite 2.499)) = Indicator (LIGHT_RAIN rainIndicators)
    \<and> getRainIndication (NumberArg (Finite 2.5)) = Indicator (MODERATE_RAIN rainIndicators)
    \<and> getRainIndication (NumberArg (Finite 9.999)) = Indicator (MODERATE_RAIN rainIndicators)
    \<and> getRainIndication (NumberArg (Finite 10)) = Indicator (HEAVY_RAIN rainIndicators)
    \<and> getRainIndication (NumberArg (Finite 49.999)) = Indicator (HEAVY_RAIN rainIndicators)
    \<and> getRainIndication (NumberArg (Finite 50)) = Indicator (VIOLENT_RAIN rainIndicators)
    \<and> getRainIndication (NumberArg NotANumber) = JsFalse
    \<and> (\<forall>v. getRainIndication v = JsFalse \<longleftrightarrow> ToNumber v = NotANumber)
    \<and> (\<forall>v. getRainIndication v = getRainIndication (NumberArg (ToNumber v)))"
proof -
  have "\<forall>v. getRainIndication v = JsFalse \<longleftrightarrow> ToNumber v = NotANumber"
    by (simp add: getRainIndication_JsFalse)
  moreover have "\<forall>v. getRainIndication v = getRainIndication (NumberArg (ToNumber v))"
    using getRainIndication_ToNumber by blast
  moreover have "getRainIndication (NumberArg NotANumber) = JsFalse"
    by (simp add: getRainIndication_JsFalse)
  ultimately show ?thesis
    using assms by (auto simp: getRainIndication_Finite rainIndicators_def)
qed

theorem getRainIndication_ladder_witness:
  "(0::real) \<le> 3 \<and> (3::real) \<le> 12
   \<and> getRainIndication (NumberArg (Finite 3)) = Indicator 10
   \<and> getRainIndication (NumberArg (Finite 12)) = Indicator 50
   \<and> getRainIndication UndefinedArg = JsFalse
   \<and> getRainIndication (StringArg ''regen'') = JsFalse
   \<and> getRainIndication (StringArg '' 12.5 '') = Indicator 50"
proof -
  have r: "ToNumber (StringArg ''regen'') = NotANumber"
    by (simp add: StringToNumber_def trim_def is_whitespace_def unsigned_decimal_def is_digit_def)
  have n: "ToNumber (StringArg '' 12.5 '') = Finite 12.5"
    by (simp add: StringToNumber_def trim_def is_whitespace_def unsigned_decimal_def is_digit_def
        exponent_part_def Number_of_def digit_value_def)
  have u: "ToNumber UndefinedArg = NotANumber"
    by simp
  have h1: "(0::real) \<le> 3" and h2: "(3::real) \<le> 12"
    by simp_all
  note ladder = getRainIndication_ladder [OF h1 h2]
  from ladder have three: "getRainIndication (NumberArg (Finite 3)) = Indicator 10"
    by (simp add: rainIndicators_def)
  from getRainIndication_ladder [of 12 12]
  have twelve: "getRainIndication (NumberArg (Finite 12)) = Indicator 50"
    by (simp add: rainIndicators_def)
  from getRainIndication_ladder [of "12.5" "12.5"]
  have "getRainIndication (NumberArg (Finite 12.5)) = Indicator 50"
    by (simp add: rainIndicators_def)
  moreover from ladder
  have "getRainIndication (StringArg '' 12.5 '')
          = getRainIndication (NumberArg (ToNumber (StringArg '' 12.5 '')))"
    by blast
  ultimately have numeral: "getRainIndication (StringArg '' 12.5 '') = Indicator 50"
    by (simp only: n)
  from ladder have nan: "getRainIndication v = JsFalse \<longleftrightarrow> ToNumber v = NotANumber" for v
    by blast
  from nan [of UndefinedArg] u have "getRainIndication UndefinedArg = JsFalse"
    by (simp only:)
  moreover from nan [of "StringArg ''regen''"] r
  have "getRainIndication (StringArg ''regen'') = JsFalse"
    by (simp only:)
  ultimately show ?thesis
    using three twelve numeral by simp
qed

text \<open>
  C8, as the specification has it, at arguments that are no numbers: \<^verbatim>\<open>null\<close>, the empty
  string and the empty array convert to 0 and \<^verbatim>\<open>true\<close> converts to 1, so they are classified
  and the result is not \<^verbatim>\<open>false\<close>.
\<close>

theorem getRainIndication_null_counterexample:
  "getRainIndication NullArg = Indicator (NO_RAIN rainIndicators)
   \<and> getRainIndication NullArg \<noteq> JsFalse
   \<and> getRainIndication (StringArg []) = Indicator (NO_RAIN rainIndicators)
   \<and> getRainIndication (ArrayArg []) = Indicator (NO_RAIN rainIndicators)
   \<and> getRainIndication (BooleanArg True) = Indicator (LIGHT_RAIN rainIndicators)"
  by (simp add: getRainIndication_def isNaN_def less_than_def StringToNumber_def trim_def)

section \<open>Properties of the rain parser\<close>

lemma Buienradar_example: "Buienradar (Some example_config) = Inr example_state"
  by (simp add: example_config_def example_state_def Buienradar_def round2_def Math_round_def)

lemma example_matches:
  "rainDataRegex_matches example_text = [(''55'', ''14:30''), (''60'', ''14:35''), (''70'', ''14:40'')]"
  by (simp add: example_text_def is_digit_def is_time_char_def)

lemma sample_at_append:
  "i < length xs \<Longrightarrow> sample_at now (xs @ [x]) i = sample_at now xs i"
proof -
  assume "i < length xs"
  then have "(xs @ [x]) ! i = xs ! i"
    by (simp add: nth_append)
  moreover from \<open>i < length xs\<close> have "(xs @ [x]) ! 0 = xs ! 0"
    by (cases xs) simp_all
  ultimately show ?thesis
    by (simp only: sample_at_def)
qed

lemma foldl_replace_callback:
  "foldl (replace_callback now) ([], None) toks =
     (map (sample_at now toks) [0..<length toks],
      if toks = [] then None
      else Some (firstTime now (snd (toks ! 0)) + (int (length toks) - 1) * (300 * 1000)))"
proof (induction toks rule: rev_induct)
  case Nil
  show ?case by simp
next
  case (snoc x xs)
  obtain v tm where x: "x = (v, tm)" by (cases x)
  have m: "map (sample_at now (xs @ [x])) [0..<length xs] = map (sample_at now xs) [0..<length xs]"
    by (rule map_cong) (simp_all add: sample_at_append)
  show ?case
  proof (cases "xs = []")
    case True
    then show ?thesis by (simp add: x sample_at_def Let_def)
  next
    case False
    then have "(xs @ [x]) ! 0 = xs ! 0" by (cases xs) simp_all
    with False snoc m show ?thesis
      by (simp add: x sample_at_def nth_append Let_def)
  qed
qed

lemma parseRainData_eq:
  "parseRainData now data =
     map (sample_at now (rainDataRegex_matches data)) [0..<length (rainDataRegex_matches data)]"
  by (cases data) (simp_all add: parseRainData_def foldl_replace_callback)

lemma length_parseRainData:
  "length (parseRainData now data) = length (rainDataRegex_matches data)"
  by (simp add: parseRainData_eq)

lemma nth_parseRainData:
  "i < length (rainDataRegex_matches data) \<Longrightarrow>
     parseRainData now data ! i = sample_at now (rainDataRegex_matches data) i"
  by (simp add: parseRainData_eq)

lemma rainData_checkLocationChange: "rainData (checkLocationChange s) = rainData s"
  by (simp add: checkLocationChange_def resetCache_def)

lemma requestCacheTimeout_checkLocationChange:
  "requestCacheTimeout (checkLocationChange s) = requestCacheTimeout s"
  by (simp add: checkLocationChange_def resetCache_def)

lemma fst_getRainData_then:
  "2 \<le> length (rainDataRegex_matches data) \<Longrightarrow>
     fst (getRainData_then now data s) = Resolved (parseRainData now data)"
  by (simp add: getRainData_then_def Let_def length_parseRainData)

lemma getRainData_fetch:
  assumes "getRawRainData (checkLocationChange s) replies = Resolved data"
    and "forceRefresh \<or> requestCacheTimeout s = 0 \<or> rainData s = None"
  shows "getRainData forceRefresh now replies s = getRainData_then now data (checkLocationChange s)"
  using assms
  by (auto simp: getRainData_def Let_def rainData_checkLocationChange
      requestCacheTimeout_checkLocationChange split: option.splits)

lemma getRawRainData_example:
  "getRawRainData (checkLocationChange example_state) [None, Some example_text] = Resolved example_text"
  by (simp add: example_state_def getRawRainData_def raceOfRequests_def checkLocationChange_def
      resetCache_def apiUrls_def matches_rainDataRegex_def example_matches)
    (simp add: example_text_def)

text \<open>
  C7. When the raw rain text holds \<open>n \<ge> 2\<close> tokens (matches of \<^verbatim>\<open>rainDataRegex\<close>) and
  \<^verbatim>\<open>getRainData\<close> fetches it (the request resolves with the text, and the call is forced or
  finds no cached entry), the call resolves with \<open>n\<close> samples in the order of the tokens:
  sample \<open>i\<close> carries the value of token \<open>i\<close>, the amount
  \<^verbatim>\<open>Math.round(Math.pow(10, (value - 109) / 32) * 100) / 100\<close> and the indication of that
  amount; the first time comes from the first token, and every later time is the time of
  the sample before plus 5 minutes, whatever time the token itself carries.
\<close>

theorem getRainData_samples:
  assumes "2 \<le> length (rainDataRegex_matches data)"
    and "getRawRainData (checkLocationChange s) replies = Resolved data"
    and "forceRefresh \<or> requestCacheTimeout s = 0 \<or> rainData s = None"
  shows "\<exists>samples. fst (getRainData forceRefresh now replies s) = Resolved samples
           \<and> length samples = length (rainDataRegex_matches data)
           \<and> (\<forall>i < length samples.
                 rawValue (samples ! i) = fst (rainDataRegex_matches data ! i)
               \<and> amount (samples ! i) =
                   Math_round (10 powr ((of_int (Number_of (rawValue (samples ! i))) - 109) / 32) * 100) / 100
               \<and> indication (samples ! i) = getRainIndication (NumberArg (Finite (amount (samples ! i)))))
           \<and> time (samples ! 0) = firstTime now (snd (rainDataRegex_matches data ! 0))
           \<and> (\<forall>i. Suc i < length samples \<longrightarrow>
                 time (samples ! Suc i) = time (samples ! i) + 5 * 60 * 1000)"
proof (intro exI conjI)
  show "fst (getRainData forceRefresh now replies s) = Resolved (parseRainData now data)"
    using assms by (simp add: getRainData_fetch fst_getRainData_then)
  show "length (parseRainData now data) = length (rainDataRegex_matches data)"
    by (rule length_parseRainData)
  show "\<forall>i < length (parseRainData now data).
                 rawValue (parseRainData now data ! i) = fst (rainDataRegex_matches data ! i)
               \<and> amount (parseRainData now data ! i) =
                   Math_round (10 powr ((of_int (Number_of (rawValue (parseRainData now data ! i))) - 109) / 32) * 100) / 100
               \<and> indication (parseRainData now data ! i) = getRainIndication (NumberArg (Finite (amount (parseRainData now data ! i))))"
    by (simp add: length_parseRainData nth_parseRainData sample_at_def amount_of_def round2_def
       )
  show "time (parseRainData now data ! 0) = firstTime now (snd (rainDataRegex_matches data ! 0))"
  proof -
    from assms(1) have "0 < length (rainDataRegex_matches data)" by linarith
    then have "parseRainData now data ! 0 = sample_at now (rainDataRegex_matches data) 0"
      by (rule nth_parseRainData)
    then show ?thesis by (simp add: sample_at_def)
  qed
  show "\<forall>i. Suc i < length (parseRainData now data) \<longrightarrow>
                 time (parseRainData now data ! Suc i) = time (parseRainData now data ! i) + 5 * 60 * 1000"
    by (simp add: length_parseRainData nth_parseRainData sample_at_def)
qed

theorem getRainData_samples_witness:
  "\<exists>samples.
      2 \<le> length (rainDataRegex_matches example_text)
    \<and> getRawRainData (checkLocationChange example_state) [None, Some example_text]
        = Resolved example_text
    \<and> rainData example_state = None
    \<and> fst (getRainData False example_now [None, Some example_text] example_state)
        = Resolved samples
    \<and> length samples = 3
    \<and> time (samples ! 0) = 20000 * msPerDay + 14 * 3600000 + 30 * 60000
    \<and> time (samples ! 1) = 20000 * msPerDay + 14 * 3600000 + 35 * 60000
    \<and> time (samples ! 2) = 20000 * msPerDay + 14 * 3600000 + 40 * 60000"
proof -
  have c: "rainData example_state = None"
    by (simp add: example_state_def)
  have n: "2 \<le> length (rainDataRegex_matches example_text)"
    by (simp add: example_matches)
  from c have h: "False \<or> requestCacheTimeout example_state = 0 \<or> rainData example_state = None"
    by simp
  from getRainData_samples [OF n getRawRainData_example h, of example_now]
  obtain samples
    where res: "fst (getRainData False example_now [None, Some example_text] example_state)
                  = Resolved samples"
    and len: "length samples = 3"
    and t0: "time (samples ! 0) = firstTime example_now ''14:30''"
    and step: "\<forall>i. Suc i < length samples \<longrightarrow>
                 time (samples ! Suc i) = time (samples ! i) + 5 * 60 * 1000"
    unfolding example_matches by auto
  have f: "firstTime example_now ''14:30'' = 20000 * msPerDay + 14 * 3600000 + 30 * 60000"
    by (simp add: example_now_def firstTime_def Number_of_def digit_value_def MakeDate_def
        startOfDay_def msPerDay_def getMilliseconds_def)
  from step len have "time (samples ! 1) = time (samples ! 0) + 5 * 60 * 1000"
    and "time (samples ! 2) = time (samples ! 1) + 5 * 60 * 1000"
    by (simp_all add: numeral_2_eq_2)
  with t0 f have "time (samples ! 0) = 20000 * msPerDay + 14 * 3600000 + 30 * 60000"
    and "time (samples ! 1) = 20000 * msPerDay + 14 * 3600000 + 35 * 60000"
    and "time (samples ! 2) = 20000 * msPerDay + 14 * 3600000 + 40 * 60000"
    by simp_all
  with n getRawRainData_example c res len show ?thesis by blast
qed

lemma midnight_matches:
  "rainDataRegex_matches midnight_text = [(''000'', ''00:05''), (''000'', ''00:10'')]"
  by (simp add: midnight_text_def is_digit_def is_time_char_def)

lemma getRawRainData_single:
  "lat s \<noteq> 0 \<Longrightarrow> lon s \<noteq> 0 \<Longrightarrow> data \<noteq> [] \<Longrightarrow> rainDataRegex_matches data \<noteq> [] \<Longrightarrow>
   getRawRainData s [Some data] = Resolved data"
  by (simp add: getRawRainData_def raceOfRequests_def apiUrls_def matches_rainDataRegex_def)

lemma lat_lon_checkLocationChange:
  "lat (checkLocationChange s) = lat s" "lon (checkLocationChange s) = lon s"
  by (simp_all add: checkLocationChange_def resetCache_def)

text \<open>
  C1. What the code does at the input of the specification's example: the text is parsed at
  23:50 and its first token reads 00:05. The first sample is dated 00:05 of the same day,
  23 hours and 45 minutes before the parse, and not 00:05 of the next day: line 153 tests
  \<^verbatim>\<open>previousTime.getTime() - Date.now() > 12 * 3600 * 1000\<close>, which holds for a time more
  than 12 hours ahead of the clock, never for one behind it.
\<close>

theorem getRainData_before_midnight:
  "fst (getRainData False midnight_now [Some midnight_text] example_state) =
     Resolved
       [\<lparr>rawValue = ''000'', amount = amount_of ''000'',
         time = 20000 * msPerDay + 5 * 60000,
         indication = getRainIndication (NumberArg (Finite (amount_of ''000'')))\<rparr>,
        \<lparr>rawValue = ''000'', amount = amount_of ''000'',
         time = 20000 * msPerDay + 10 * 60000,
         indication = getRainIndication (NumberArg (Finite (amount_of ''000'')))\<rparr>]"
proof -
  have "getRawRainData (checkLocationChange example_state) [Some midnight_text] = Resolved midnight_text"
    by (rule getRawRainData_single)
      (simp_all add: lat_lon_checkLocationChange midnight_matches, simp_all add: example_state_def midnight_text_def)
  moreover have "rainData example_state = None"
    by (simp add: example_state_def)
  ultimately have "fst (getRainData False midnight_now [Some midnight_text] example_state) =
      Resolved (parseRainData midnight_now midnight_text)"
    by (simp add: getRainData_fetch fst_getRainData_then midnight_matches)
  moreover have "firstTime midnight_now ''00:05'' = 20000 * msPerDay + 5 * 60000"
    by (simp add: midnight_now_def firstTime_def Number_of_def digit_value_def MakeDate_def
        startOfDay_def msPerDay_def getMilliseconds_def)
  ultimately show ?thesis
    by (simp add: parseRainData_eq midnight_matches sample_at_def upt_rec [of 0] upt_rec [of 1] upt_rec[of "Suc 0"]
       )
qed


lemma example_cached_state:
  "example_cached_state =
     example_state\<lparr>last_lat := Some 52.22, last_lon := Some 6.89,
        rainData := Some (parseRainData example_now example_text),
        timers := [\<lparr>handle = 0, callback = ClearRainData, delay = 1000\<rparr>],
        next_handle := 1, rainDataCacheTimeout := Some 0\<rparr>"
proof -
  have "example_cached_state = snd (getRainData_then example_now example_text (checkLocationChange example_state))"
    unfolding example_cached_state_def
    by (subst getRainData_fetch [OF getRawRainData_example]) (simp_all add: example_state_def)
  then show ?thesis
    by (simp add: getRainData_then_def length_parseRainData example_matches Let_def
        checkLocationChange_def resetCache_def setTimeout_def clearTimeout_def example_state_def)
qed

text \<open>
  C2. What the code does when the location changes while rain data is cached:
  \<^verbatim>\<open>setLatLon\<close> rounds the coordinates and, through \<^verbatim>\<open>resetCache\<close>, clears
  \<^verbatim>\<open>nearestWeatherStationId\<close> and the variable \<^verbatim>\<open>rainDataCache\<close>, which nothing reads; the
  cache that \<^verbatim>\<open>getRainData\<close> reads is \<^verbatim>\<open>this.rainData\<close>. So the next \<^verbatim>\<open>getRainData()\<close>
  resolves with the samples cached for the old location and fetches nothing.
\<close>

theorem setLatLon_keeps_rainData:
  "fst (getRainData False example_now [None, Some example_text] example_state)
     = Resolved (parseRainData example_now example_text)
   \<and> setLatLon (ArgNumber (Num 51.4416)) (ArgNumber (Num 5.4697)) example_cached_state
       = Inr example_moved_state
   \<and> lat example_moved_state = 51.44 \<and> lon example_moved_state = 5.47
   \<and> nearestWeatherStationId example_moved_state = None
   \<and> rainData example_moved_state = Some (parseRainData example_now example_text)
   \<and> fst (getRainData False (example_now + 500) [Some midnight_text] example_moved_state)
       = Resolved (parseRainData example_now example_text)"
proof (intro conjI)
  show "fst (getRainData False example_now [None, Some example_text] example_state)
     = Resolved (parseRainData example_now example_text)"
    by (subst getRainData_fetch [OF getRawRainData_example])
      (simp_all add: fst_getRainData_then example_matches, simp add: example_state_def)
  show "setLatLon (ArgNumber (Num 51.4416)) (ArgNumber (Num 5.4697)) example_cached_state
       = Inr example_moved_state"
    by (simp add: setLatLon_def example_moved_state_def round2_def Math_round_def)
  show "lat example_moved_state = 51.44" "lon example_moved_state = 5.47"
    "nearestWeatherStationId example_moved_state = None"
    by (simp_all add: example_moved_state_def resetCache_def)
  show c: "rainData example_moved_state = Some (parseRainData example_now example_text)"
    by (simp add: example_moved_state_def resetCache_def example_cached_state)
  have "requestCacheTimeout example_moved_state = 1000"
    by (simp add: example_moved_state_def resetCache_def example_cached_state example_state_def)
  with c show "fst (getRainData False (example_now + 500) [Some midnight_text] example_moved_state)
       = Resolved (parseRainData example_now example_text)"
    by (simp add: getRainData_def Let_def rainData_checkLocationChange
        requestCacheTimeout_checkLocationChange)
qed

text \<open>
  C5. What the code does when both endpoints reply and neither body matches: no request
  promise settles, because \<^verbatim>\<open>responseCounter\<close> stays 0 and never equals the number of
  URLs, so the race is decided by the timer and rejects with \<^verbatim>\<open>'timeout'\<close>.
\<close>

theorem getRawRainData_no_match_times_out:
  "getRawRainData example_state [Some ''<html>Service Unavailable</html>'', Some ''no data''] = Rejected Timeout"
  by (simp add: example_state_def getRawRainData_def raceOfRequests_def apiUrls_def matches_rainDataRegex_def is_digit_def)

text \<open>
  C9. A latitude or longitude of 0 counts as absent: the constructor returns the
  \<^verbatim>\<open>Error\<close> when \<^verbatim>\<open>config.lat\<close> or \<^verbatim>\<open>config.lon\<close> is 0, and \<^verbatim>\<open>getRawRainData\<close> rejects
  with the location error when \<^verbatim>\<open>this.lat\<close> or \<^verbatim>\<open>this.lon\<close> is 0.
\<close>

theorem zero_coordinate_is_absent:
  "(cfg_lat c = Some (Num 0) \<or> cfg_lon c = Some (Num 0) \<longrightarrow> Buienradar (Some c) = Inl InitError)
   \<and> (lat s = 0 \<or> lon s = 0 \<longrightarrow> getRawRainData s replies = Rejected LocationNotSet)"
  by (auto simp: Buienradar_def getRawRainData_def)

theorem zero_coordinate_is_absent_witness:
  "cfg_lat (example_config\<lparr>cfg_lat := Some (Num 0)\<rparr>) = Some (Num 0)
   \<and> Buienradar (Some (example_config\<lparr>cfg_lat := Some (Num 0)\<rparr>)) = Inl InitError
   \<and> setLatLon (ArgNumber (Num 52.22)) (ArgNumber (Num 0)) example_state
       = Inr (resetCache (example_state\<lparr>lat := 52.22, lon := 0\<rparr>))
   \<and> lon (resetCache (example_state\<lparr>lat := 52.22, lon := 0\<rparr>)) = 0
   \<and> getRawRainData (resetCache (example_state\<lparr>lat := 52.22, lon := 0\<rparr>)) [Some example_text]
       = Rejected LocationNotSet"
  using zero_coordinate_is_absent
    [of "example_config\<lparr>cfg_lat := Some (Num 0)\<rparr>"
        "resetCache (example_state\<lparr>lat := 52.22, lon := 0\<rparr>)" "[Some example_text]"]
  by (simp add: setLatLon_def resetCache_def round2_def Math_round_def)


section \<open>Properties of the feed accessors\<close>

lemma map_of_assign_present:
  "map_of (map (\<lambda>(a, b). if a = k then (a, v) else (a, b)) xs) x =
     (if x = k \<and> k \<in> fst ` set xs then Some v else map_of xs x)"
proof (induction xs)
  case Nil
  show ?case by simp
next
  case (Cons y ys)
  obtain a b where y: "y = (a, b)" by (cases y)
  show ?case
  proof (cases "a = k")
    case True
    with Cons show ?thesis by (auto simp: y)
  next
    case False
    with Cons show ?thesis by (auto simp: y) (metis fst_conv image_eqI)
  qed
qed

lemma lookup_assign: "lookup (assign kvs k v) k' = (if k' = k then v else lookup kvs k')"
proof (cases "k \<in> fst ` set kvs")
  case True
  then show ?thesis
    by (simp add: lookup_def assign_def map_of_assign_present)
next
  case False
  then have "map_of kvs k = None"
    by (simp add: map_of_eq_None_iff)
  with False show ?thesis
    by (simp add: lookup_def assign_def map_add_def split: option.splits)
qed

lemma map_of_delete:
  "map_of (filter (\<lambda>(a, b). a \<noteq> k) xs) x = (if x = k then None else map_of xs x)"
  by (induction xs) auto

lemma lookup_delete: "lookup (delete kvs k) k' = (if k' = k then Undefined else lookup kvs k')"
  by (simp add: lookup_def delete_def map_of_delete)

lemma dag_plus_neq [simp]:
  "dag_plus i \<noteq> ''dagen''" "dag_plus i \<noteq> ''tekst_middellang''" "dag_plus i \<noteq> ''tekst_lang''"
  "''dagen'' \<noteq> dag_plus i" "''tekst_middellang'' \<noteq> dag_plus i" "''tekst_lang'' \<noteq> dag_plus i"
  by (simp_all add: dag_plus_def)

lemma Number_of_snoc: "Number_of (ds @ [c]) = 10 * Number_of ds + digit_value c"
  by (simp add: Number_of_def)

lemma digit_value_digit_char: "d < 10 \<Longrightarrow> digit_value (digit_char d) = int d"
  by (simp add: digit_value_def digit_char_def)

lemma Number_of_show_nat: "Number_of (show_nat n) = int n"
proof (induction n rule: show_nat.induct)
  case (1 n)
  show ?case
  proof (cases "n < 10")
    case True
    then show ?thesis
      by (subst show_nat.simps) (simp add: Number_of_def digit_value_digit_char)
  next
    case False
    with 1 have "Number_of (show_nat (n div 10)) = int (n div 10)" by simp
    moreover have "10 * int (n div 10) + int (n mod 10) = int n"
      by presburger
    ultimately show ?thesis
      using False by (subst show_nat.simps) (simp add: Number_of_snoc digit_value_digit_char)
  qed
qed

lemma dag_plus_inj: "dag_plus i = dag_plus j \<longleftrightarrow> i = j"
proof
  assume "dag_plus i = dag_plus j"
  then have "show_nat i = show_nat j" by (simp add: dag_plus_def)
  then have "Number_of (show_nat i) = Number_of (show_nat j)" by simp
  then show "i = j" by (simp add: Number_of_show_nat)
qed simp

lemma lookup_push_dagen:
  "lookup (push_dagen kvs d) k =
     (if k = ''dagen'' then (case lookup kvs ''dagen'' of Array ds \<Rightarrow> Array (ds @ [d]) | other \<Rightarrow> other)
      else lookup kvs k)"
  by (simp add: push_dagen_def lookup_assign)

lemma lookup_collect_days_other:
  "k \<noteq> ''dagen'' \<Longrightarrow> lookup (collect_days i kvs) k = lookup kvs k \<or> lookup (collect_days i kvs) k = Undefined"
proof (induction i kvs rule: collect_days.induct)
  case (1 i kvs)
  show ?case
  proof (cases "truthy (lookup kvs (dag_plus i))")
    case True
    with 1 show ?thesis
      by (subst (1 2) collect_days.simps) (auto simp: lookup_delete lookup_push_dagen split: if_splits)
  next
    case False
    then show ?thesis by (subst collect_days.simps) simp
  qed
qed

lemma collect_days_first_gone: "\<not> truthy (lookup (collect_days i kvs) (dag_plus i))"
proof (cases "truthy (lookup kvs (dag_plus i))")
  case True
  let ?kvs' = "delete (push_dagen kvs (lookup kvs (dag_plus i))) (dag_plus i)"
  have "lookup ?kvs' (dag_plus i) = Undefined" by (simp add: lookup_delete)
  with lookup_collect_days_other [of "dag_plus i" "Suc i" ?kvs']
  have "lookup (collect_days (Suc i) ?kvs') (dag_plus i) = Undefined" by auto
  with True show ?thesis by (subst collect_days.simps) simp
next
  case False
  then show ?thesis by (subst collect_days.simps) simp
qed

lemma collect_days_stops:
  "\<not> truthy (lookup kvs (dag_plus i)) \<Longrightarrow> collect_days i kvs = kvs"
  by (subst collect_days.simps) simp

lemma collect_days_spec:
  assumes "lookup kvs ''dagen'' = Array ds"
  shows "\<exists>m. lookup (collect_days i kvs) ''dagen'' = Array (ds @ map (\<lambda>j. lookup kvs (dag_plus j)) [i..<i + m])
           \<and> (\<forall>j. i \<le> j \<and> j < i + m \<longrightarrow> truthy (lookup kvs (dag_plus j))
                   \<and> lookup (collect_days i kvs) (dag_plus j) = Undefined)
           \<and> \<not> truthy (lookup kvs (dag_plus (i + m)))"
  using assms
proof (induction i kvs arbitrary: ds rule: collect_days.induct)
  case (1 i kvs)
  show ?case
  proof (cases "truthy (lookup kvs (dag_plus i))")
    case False
    then have "collect_days i kvs = kvs" by (rule collect_days_stops)
    with False 1(2) show ?thesis by (intro exI [of _ 0]) auto
  next
    case True
    let ?d = "lookup kvs (dag_plus i)"
    let ?kvs' = "delete (push_dagen kvs ?d) (dag_plus i)"
    have step: "collect_days i kvs = collect_days (Suc i) ?kvs'"
      using True by (subst collect_days.simps) simp
    have dagen': "lookup ?kvs' ''dagen'' = Array (ds @ [?d])"
      using 1(2) by (simp add: lookup_delete lookup_push_dagen)
    have other: "lookup ?kvs' (dag_plus j) = lookup kvs (dag_plus j)" if "j \<noteq> i" for j
      using that by (simp add: lookup_delete lookup_push_dagen dag_plus_inj)
    from 1(1) [OF True dagen'] obtain m where
      m1: "lookup (collect_days (Suc i) ?kvs') ''dagen'' =
             Array ((ds @ [?d]) @ map (\<lambda>j. lookup ?kvs' (dag_plus j)) [Suc i..<Suc i + m])"
      and m2: "\<forall>j. Suc i \<le> j \<and> j < Suc i + m \<longrightarrow> truthy (lookup ?kvs' (dag_plus j))
                   \<and> lookup (collect_days (Suc i) ?kvs') (dag_plus j) = Undefined"
      and m3: "\<not> truthy (lookup ?kvs' (dag_plus (Suc i + m)))"
      by blast
    have map_eq: "map (\<lambda>j. lookup ?kvs' (dag_plus j)) [Suc i..<Suc i + m]
                  = map (\<lambda>j. lookup kvs (dag_plus j)) [Suc i..<Suc i + m]"
    proof (rule map_cong [OF refl])
      fix j assume "j \<in> set [Suc i..<Suc i + m]"
      then have "Suc i \<le> j" by (simp only: set_upt atLeastLessThan_iff)
      then have "j \<noteq> i" by simp
      then show "lookup ?kvs' (dag_plus j) = lookup kvs (dag_plus j)" by (rule other)
    qed
    have gone: "lookup (collect_days (Suc i) ?kvs') (dag_plus i) = Undefined"
      using lookup_collect_days_other [of "dag_plus i" "Suc i" ?kvs'] by (auto simp: lookup_delete)
    show ?thesis
    proof (intro exI [of _ "Suc m"] conjI allI impI)
      show "lookup (collect_days i kvs) ''dagen'' =
              Array (ds @ map (\<lambda>j. lookup kvs (dag_plus j)) [i..<i + Suc m])"
      proof -
        have "[i..<i + Suc m] = i # [Suc i..<Suc i + m]"
          by (simp add: upt_conv_Cons del: upt_Suc)
        then have "ds @ map (\<lambda>j. lookup kvs (dag_plus j)) [i..<i + Suc m]
                     = (ds @ [?d]) @ map (\<lambda>j. lookup kvs (dag_plus j)) [Suc i..<Suc i + m]"
          by (simp only: list.map append_Cons append_Nil append_assoc)
        with m1 show ?thesis
          by (simp only: step map_eq)
      qed
      show "\<not> truthy (lookup kvs (dag_plus (i + Suc m)))"
        using m3 other [of "Suc i + m"] by simp
    next
      fix j assume j: "i \<le> j \<and> j < i + Suc m"
      have later: "truthy (lookup ?kvs' (dag_plus j))
                   \<and> lookup (collect_days (Suc i) ?kvs') (dag_plus j) = Undefined" if "j \<noteq> i"
      proof -
        from that j have "Suc i \<le> j \<and> j < Suc i + m" by arith
        with m2 show ?thesis by blast
      qed
      show "truthy (lookup kvs (dag_plus j))"
      proof (cases "j = i")
        case True
        with \<open>truthy ?d\<close> show ?thesis by simp
      next
        case False
        with later other [of j] show ?thesis by simp
      qed
      show "lookup (collect_days i kvs) (dag_plus j) = Undefined"
      proof (cases "j = i")
        case True
        with gone show ?thesis by (simp add: step)
      next
        case False
        with later show ?thesis by (simp add: step)
      qed
    qed
  qed
qed


lemma getFeedData_cached:
  "feedDataCache s = Some (p, Resolved data) \<Longrightarrow> requestCacheTimeout s \<noteq> 0 \<Longrightarrow>
     getFeedData globals transport parseString s = (Resolved data, s)"
  by (simp add: getFeedData_def getFeedData_call_def Let_def)

lemma read_prop_assign_prop:
  "read_prop (assign_prop (Object kvs) k v) k' = (if k' = k then v else lookup kvs k')"
  by (simp add: lookup_assign)

text \<open>The forecast callback on feed data whose forecast block is an object, step by step.\<close>

lemma getWeatherForecast_then_Resolved:
  assumes "getWeatherForecast_then data = (Resolved forecast, data')"
  shows "\<exists>feed kvs kvs2.
           data = Object feed \<and> lookup feed ''verwachting_meerdaags'' = Object kvs
         \<and> kvs2 = collect_days 1 (assign kvs ''dagen'' (Array []))
         \<and> lookup kvs2 ''tekst_middellang'' \<noteq> Undefined
         \<and> lookup kvs2 ''tekst_lang'' \<noteq> Undefined
         \<and> forecast = Object (assign (assign kvs2 ''tekst_middellang''
                                   (read_prop (lookup kvs2 ''tekst_middellang'') ''$''))
                                 ''tekst_lang'' (read_prop (lookup kvs2 ''tekst_lang'') ''$''))
         \<and> data' = Object (assign feed ''verwachting_meerdaags'' forecast)"
proof -
  from assms obtain feed where feed: "data = Object feed"
    by (cases data) (simp_all add: getWeatherForecast_then_def)
  with assms obtain kvs where kvs: "lookup feed ''verwachting_meerdaags'' = Object kvs"
    by (cases "lookup feed ''verwachting_meerdaags''") (simp_all add: getWeatherForecast_then_def)
  let ?kvs2 = "collect_days 1 (assign kvs ''dagen'' (Array []))"
  from assms feed kvs have m: "lookup ?kvs2 ''tekst_middellang'' \<noteq> Undefined"
    by (cases "lookup ?kvs2 ''tekst_middellang''") (simp_all add: getWeatherForecast_then_def Let_def)
  from assms feed kvs m have l: "lookup ?kvs2 ''tekst_lang'' \<noteq> Undefined"
    by (cases "lookup ?kvs2 ''tekst_middellang''"; cases "lookup ?kvs2 ''tekst_lang''")
       (simp_all add: getWeatherForecast_then_def Let_def lookup_assign)
  from assms feed kvs m l
  have "forecast = Object (assign (assign ?kvs2 ''tekst_middellang''
                                   (read_prop (lookup ?kvs2 ''tekst_middellang'') ''$''))
                                 ''tekst_lang'' (read_prop (lookup ?kvs2 ''tekst_lang'') ''$''))
        \<and> data' = Object (assign feed ''verwachting_meerdaags'' forecast)"
    by (cases "lookup ?kvs2 ''tekst_middellang''"; cases "lookup ?kvs2 ''tekst_lang''")
       (auto simp: getWeatherForecast_then_def Let_def lookup_assign)
  with feed kvs m l show ?thesis by blast
qed


lemma get_prop_defined: "v \<noteq> Undefined \<Longrightarrow> get_prop v k = Inr (read_prop v k)"
  by (cases v) simp_all

lemma getWeatherForecast_then_again:
  assumes days1: "\<not> truthy (lookup kvs (dag_plus 1))"
    and m: "lookup kvs ''tekst_middellang'' \<noteq> Undefined"
    and l: "lookup kvs ''tekst_lang'' \<noteq> Undefined"
    and vm: "lookup feed ''verwachting_meerdaags'' = Object kvs"
  shows "\<exists>forecast2. fst (getWeatherForecast_then (Object feed)) = Resolved forecast2
           \<and> read_prop forecast2 ''dagen'' = Array []"
proof -
  let ?kvs1 = "assign kvs ''dagen'' (Array [])"
  have "\<not> truthy (lookup ?kvs1 (dag_plus 1))"
    using days1 by (simp add: lookup_assign)
  then have stop: "collect_days 1 ?kvs1 = ?kvs1"
    by (rule collect_days_stops)
  have m1: "lookup ?kvs1 ''tekst_middellang'' \<noteq> Undefined"
    using m by (simp add: lookup_assign)
  let ?kvs3 = "assign ?kvs1 ''tekst_middellang'' (read_prop (lookup ?kvs1 ''tekst_middellang'') ''$'')"
  have l3: "lookup ?kvs3 ''tekst_lang'' \<noteq> Undefined"
    using l by (simp add: lookup_assign)
  let ?kvs4 = "assign ?kvs3 ''tekst_lang'' (read_prop (lookup ?kvs3 ''tekst_lang'') ''$'')"
  have "fst (getWeatherForecast_then (Object feed)) = Resolved (Object ?kvs4)"
    by (simp add: getWeatherForecast_then_def vm stop Let_def
        get_prop_defined [OF m1] get_prop_defined [OF l3] del: One_nat_def)
  moreover have "read_prop (Object ?kvs4) ''dagen'' = Array []"
    by (simp add: lookup_assign)
  ultimately show ?thesis by blast
qed

lemma getWeatherForecast_cached:
  assumes "feedDataCache s = Some (p, Resolved data)" and "requestCacheTimeout s \<noteq> 0"
  shows "getWeatherForecast globals transport parseString s =
           (fst (getWeatherForecast_then data),
            s\<lparr>feedDataCache := Some (p, Resolved (snd (getWeatherForecast_then data)))\<rparr>)"
  using assms
  by (simp add: getWeatherForecast_def getFeedData_cached write_feed_def split: prod.splits)

lemma getWeatherForecast_then_again_undefined:
  assumes days1: "\<not> truthy (lookup kvs (dag_plus 1))"
    and u: "lookup kvs ''tekst_middellang'' = Undefined \<or> lookup kvs ''tekst_lang'' = Undefined"
    and vm: "lookup feed ''verwachting_meerdaags'' = Object kvs"
  shows "fst (getWeatherForecast_then (Object feed)) = Rejected TypeError"
proof -
  let ?kvs1 = "assign kvs ''dagen'' (Array [])"
  have "\<not> truthy (lookup ?kvs1 (dag_plus 1))"
    using days1 by (simp add: lookup_assign)
  then have stop: "collect_days 1 ?kvs1 = ?kvs1"
    by (rule collect_days_stops)
  show ?thesis
  proof (cases "lookup kvs ''tekst_middellang'' = Undefined")
    case True
    then have "lookup ?kvs1 ''tekst_middellang'' = Undefined"
      by (simp add: lookup_assign)
    then show ?thesis
      by (simp add: getWeatherForecast_then_def vm stop Let_def del: One_nat_def)
  next
    case False
    then have m1: "lookup ?kvs1 ''tekst_middellang'' \<noteq> Undefined"
      by (simp add: lookup_assign)
    let ?kvs3 = "assign ?kvs1 ''tekst_middellang'' (read_prop (lookup ?kvs1 ''tekst_middellang'') ''$'')"
    from False u have "lookup ?kvs3 ''tekst_lang'' = Undefined"
      by (simp add: lookup_assign)
    then show ?thesis
      by (simp add: getWeatherForecast_then_def vm stop Let_def get_prop_defined [OF m1]
          del: One_nat_def)
  qed
qed

text \<open>
  C10, as the code has it. \<^verbatim>\<open>getWeatherForecast\<close> changes the cached feed data. When a
  call is served from the cache and resolves, the cache still holds the same promise; the
  array \<^verbatim>\<open>dagen\<close> of the forecast holds the values of \<^verbatim>\<open>dag-plus1\<close>, \<^verbatim>\<open>dag-plus2\<close>, ... up to
  the first key that is missing or falsy, in that order, and each of these keys is gone from
  the cached data. The next call, served from that cache entry, finds no day to copy: when
  both texts of the first forecast are defined it resolves with a forecast whose \<^verbatim>\<open>dagen\<close> is
  the empty array, and when one of them is \<^verbatim>\<open>undefined\<close> (the text had no attributes) it
  rejects with a \<^verbatim>\<open>TypeError\<close>.
\<close>

theorem getWeatherForecast_empties_cached_days:
  assumes cache: "feedDataCache s = Some (p, Resolved data)"
    and ttl: "requestCacheTimeout s \<noteq> 0"
    and first: "getWeatherForecast globals transport parseString s = (Resolved forecast, s1)"
  shows "\<exists>data1 days.
           feedDataCache s1 = Some (p, Resolved data1) \<and> requestCacheTimeout s1 \<noteq> 0
         \<and> read_prop forecast ''dagen'' = Array days
         \<and> (\<forall>i. 1 \<le> i \<and> i \<le> length days \<longrightarrow>
               truthy (read_prop (read_prop data ''verwachting_meerdaags'') (dag_plus i))
             \<and> days ! (i - 1) = read_prop (read_prop data ''verwachting_meerdaags'') (dag_plus i)
             \<and> read_prop (read_prop data1 ''verwachting_meerdaags'') (dag_plus i) = Undefined)
         \<and> \<not> truthy (read_prop (read_prop data ''verwachting_meerdaags'')
                          (dag_plus (Suc (length days))))
         \<and> (read_prop forecast ''tekst_middellang'' \<noteq> Undefined
              \<and> read_prop forecast ''tekst_lang'' \<noteq> Undefined \<longrightarrow>
               (\<exists>forecast2.
                  fst (getWeatherForecast globals2 transport2 parseString2 s1) = Resolved forecast2
                \<and> read_prop forecast2 ''dagen'' = Array []))
         \<and> (read_prop forecast ''tekst_middellang'' = Undefined
              \<or> read_prop forecast ''tekst_lang'' = Undefined \<longrightarrow>
               fst (getWeatherForecast globals2 transport2 parseString2 s1) = Rejected TypeError)"
proof -
  obtain res data1 where then1: "getWeatherForecast_then data = (res, data1)"
    by (cases "getWeatherForecast_then data")
  with first getWeatherForecast_cached [OF cache ttl, of globals transport parseString]
  have res: "res = Resolved forecast"
    and s1: "s1 = s\<lparr>feedDataCache := Some (p, Resolved data1)\<rparr>"
    by simp_all
  from s1 ttl have cache1: "feedDataCache s1 = Some (p, Resolved data1)"
    and ttl1: "requestCacheTimeout s1 \<noteq> 0"
    by simp_all
  from then1 res have "getWeatherForecast_then data = (Resolved forecast, data1)" by simp
  from getWeatherForecast_then_Resolved [OF this]
  obtain feed kvs where feed: "data = Object feed"
    and vm: "lookup feed ''verwachting_meerdaags'' = Object kvs"
    and fc: "forecast = Object (assign (assign (collect_days 1 (assign kvs ''dagen'' (Array [])))
               ''tekst_middellang''
               (read_prop (lookup (collect_days 1 (assign kvs ''dagen'' (Array []))) ''tekst_middellang'') ''$''))
               ''tekst_lang''
               (read_prop (lookup (collect_days 1 (assign kvs ''dagen'' (Array []))) ''tekst_lang'') ''$''))"
    and d1: "data1 = Object (assign feed ''verwachting_meerdaags'' forecast)"
    by blast
  let ?kvs1 = "assign kvs ''dagen'' (Array [])"
  let ?kvs2 = "collect_days 1 ?kvs1"
  have orig: "read_prop (read_prop data ''verwachting_meerdaags'') (dag_plus i) = lookup ?kvs1 (dag_plus i)"
    for i
    by (simp add: feed vm lookup_assign)
  obtain kvs4 where kvs4: "forecast = Object kvs4"
    and same: "\<And>i. lookup kvs4 (dag_plus i) = lookup ?kvs2 (dag_plus i)"
    and dagen4: "lookup kvs4 ''dagen'' = lookup ?kvs2 ''dagen''"
    using fc by (simp add: lookup_assign)
  have "lookup ?kvs1 ''dagen'' = Array []"
    by (simp add: lookup_assign)
  from collect_days_spec [OF this, of 1] obtain m
    where dagen2': "lookup ?kvs2 ''dagen'' = Array ([] @ map (\<lambda>j. lookup ?kvs1 (dag_plus j)) [1..<1 + m])"
      and copied: "\<forall>j. 1 \<le> j \<and> j < 1 + m \<longrightarrow> truthy (lookup ?kvs1 (dag_plus j))"
      and gone: "\<forall>j. 1 \<le> j \<and> j < 1 + m \<longrightarrow> lookup ?kvs2 (dag_plus j) = Undefined"
      and stops: "\<not> truthy (lookup ?kvs1 (dag_plus (1 + m)))"
    by blast
  from dagen2' have dagen2: "lookup ?kvs2 ''dagen'' = Array (map (\<lambda>j. lookup ?kvs1 (dag_plus j)) [1..<1 + m])"
    by (simp only: append_Nil)
  let ?days = "map (\<lambda>j. lookup ?kvs1 (dag_plus j)) [1..<1 + m]"
  have len: "length ?days = m"
    by (simp only: length_map length_upt add_diff_cancel_left')
  have A: "read_prop forecast ''dagen'' = Array ?days"
    by (simp only: kvs4 read_prop.simps dagen4 dagen2)
  have B: "\<forall>i. 1 \<le> i \<and> i \<le> length ?days \<longrightarrow>
               truthy (read_prop (read_prop data ''verwachting_meerdaags'') (dag_plus i))
             \<and> ?days ! (i - 1) = read_prop (read_prop data ''verwachting_meerdaags'') (dag_plus i)
             \<and> read_prop (read_prop data1 ''verwachting_meerdaags'') (dag_plus i) = Undefined"
  proof (intro allI impI)
    fix i assume i: "1 \<le> i \<and> i \<le> length ?days"
    with len have im: "1 \<le> i \<and> i < 1 + m" by arith
    then have less: "i - 1 < length [1..<1 + m]"
      by (simp only: length_upt) arith
    then have "?days ! (i - 1) = lookup ?kvs1 (dag_plus ([1..<1 + m] ! (i - 1)))"
      by (simp only: nth_map)
    also from im have "[1..<1 + m] ! (i - 1) = 1 + (i - 1)"
      by (intro nth_upt) arith
    also from im have "1 + (i - 1) = i" by arith
    finally have "?days ! (i - 1) = lookup ?kvs1 (dag_plus i)" .
    moreover from copied im have "truthy (lookup ?kvs1 (dag_plus i))"
      by blast
    moreover from gone im have "lookup kvs4 (dag_plus i) = Undefined"
      by (simp add: same)
    then have "read_prop (read_prop data1 ''verwachting_meerdaags'') (dag_plus i) = Undefined"
      by (simp add: d1 kvs4 lookup_assign)
    ultimately show "truthy (read_prop (read_prop data ''verwachting_meerdaags'') (dag_plus i))
             \<and> ?days ! (i - 1) = read_prop (read_prop data ''verwachting_meerdaags'') (dag_plus i)
             \<and> read_prop (read_prop data1 ''verwachting_meerdaags'') (dag_plus i) = Undefined"
      by (simp only: orig)
  qed
  have C: "\<not> truthy (read_prop (read_prop data ''verwachting_meerdaags'')
                          (dag_plus (Suc (length ?days))))"
  proof -
    from len have "Suc (length ?days) = 1 + m" by arith
    with stops show ?thesis by (simp only: orig simp_thms)
  qed
  have gone1: "\<not> truthy (lookup kvs4 (dag_plus 1))"
    using collect_days_first_gone [of 1 ?kvs1] by (simp add: same)
  have vm1: "lookup (assign feed ''verwachting_meerdaags'' forecast) ''verwachting_meerdaags'' = Object kvs4"
    by (simp add: lookup_assign kvs4)
  note second = getWeatherForecast_cached [OF cache1 ttl1, of globals2 transport2 parseString2]
  have D: "\<exists>forecast2.
             fst (getWeatherForecast globals2 transport2 parseString2 s1) = Resolved forecast2
           \<and> read_prop forecast2 ''dagen'' = Array []"
    if "read_prop forecast ''tekst_middellang'' \<noteq> Undefined
          \<and> read_prop forecast ''tekst_lang'' \<noteq> Undefined"
  proof -
    from that have "lookup kvs4 ''tekst_middellang'' \<noteq> Undefined"
      and "lookup kvs4 ''tekst_lang'' \<noteq> Undefined"
      by (simp_all add: kvs4)
    with gone1 obtain forecast2
      where "fst (getWeatherForecast_then data1) = Resolved forecast2"
        and "read_prop forecast2 ''dagen'' = Array []"
      using vm1 unfolding d1 by (rule getWeatherForecast_then_again [THEN exE]) blast
    with second show ?thesis by simp
  qed
  have E: "fst (getWeatherForecast globals2 transport2 parseString2 s1) = Rejected TypeError"
    if "read_prop forecast ''tekst_middellang'' = Undefined
          \<or> read_prop forecast ''tekst_lang'' = Undefined"
  proof -
    from that have "lookup kvs4 ''tekst_middellang'' = Undefined \<or> lookup kvs4 ''tekst_lang'' = Undefined"
      by (simp add: kvs4)
    with gone1 have "fst (getWeatherForecast_then data1) = Rejected TypeError"
      using vm1 unfolding d1 by (rule getWeatherForecast_then_again_undefined)
    with second show ?thesis by simp
  qed
  from cache1 ttl1 A B C D E show ?thesis by blast
qed

lemma getFeedData_example:
  "getFeedData (''http'' # node_globals) (Inr ''<buienradarnl/>'') example_parseString example_state
     = (Resolved example_feed, example_feed_state)"
  by (simp add: getFeedData_def getFeedData_call_def getFeedData_then_def getRawFeedData_def
      example_parseString_def example_feed_state_def example_state_def settle_def setTimeout_def
      lookup_def example_feed_def Let_def)

lemma getWeatherForecast_then_example:
  "getWeatherForecast_then example_feed =
     (Resolved example_forecast, assign_prop example_feed ''verwachting_meerdaags'' example_forecast)"
  by code_simp

theorem getWeatherForecast_empties_cached_days_witness:
  "\<exists>forecast2.
      feedDataCache example_feed_state = Some (0, Resolved example_feed)
    \<and> requestCacheTimeout example_feed_state \<noteq> 0
    \<and> getWeatherForecast node_globals (Inl TransportError) example_parseString example_feed_state
        = (Resolved example_forecast,
           example_feed_state\<lparr>feedDataCache :=
             Some (0, Resolved (assign_prop example_feed ''verwachting_meerdaags'' example_forecast))\<rparr>)
    \<and> read_prop example_forecast ''dagen'' =
         Array [Object [(''dagweek'', String ''vr''), (''maxtemp'', String ''21'')],
                Object [(''dagweek'', String ''za''), (''maxtemp'', String ''19'')],
                Object [(''dagweek'', String ''zo''), (''maxtemp'', String ''18'')],
                Object [(''dagweek'', String ''ma''), (''maxtemp'', String ''20'')],
                Object [(''dagweek'', String ''di''), (''maxtemp'', String ''22'')]]
    \<and> read_prop example_forecast ''tekst_middellang'' \<noteq> Undefined
    \<and> read_prop example_forecast ''tekst_lang'' \<noteq> Undefined
    \<and> fst (getWeatherForecast node_globals (Inl TransportError) example_parseString
             (example_feed_state\<lparr>feedDataCache :=
                Some (0, Resolved (assign_prop example_feed ''verwachting_meerdaags'' example_forecast))\<rparr>))
        = Resolved forecast2
    \<and> read_prop forecast2 ''dagen'' = Array []"
proof -
  have c: "feedDataCache example_feed_state = Some (0, Resolved example_feed)"
    and t: "requestCacheTimeout example_feed_state \<noteq> 0"
    by (simp_all add: example_feed_state_def example_state_def)
  have f: "getWeatherForecast node_globals (Inl TransportError) example_parseString example_feed_state
        = (Resolved example_forecast,
           example_feed_state\<lparr>feedDataCache :=
             Some (0, Resolved (assign_prop example_feed ''verwachting_meerdaags'' example_forecast))\<rparr>)"
    by (simp add: getWeatherForecast_cached [OF c t] getWeatherForecast_then_example)
  have d: "read_prop example_forecast ''dagen'' =
         Array [Object [(''dagweek'', String ''vr''), (''maxtemp'', String ''21'')],
                Object [(''dagweek'', String ''za''), (''maxtemp'', String ''19'')],
                Object [(''dagweek'', String ''zo''), (''maxtemp'', String ''18'')],
                Object [(''dagweek'', String ''ma''), (''maxtemp'', String ''20'')],
                Object [(''dagweek'', String ''di''), (''maxtemp'', String ''22'')]]"
    by (simp add: example_forecast_def lookup_def)
  have m: "read_prop example_forecast ''tekst_middellang'' \<noteq> Undefined"
    and l: "read_prop example_forecast ''tekst_lang'' \<noteq> Undefined"
    by (simp_all add: example_forecast_def lookup_def)
  from getWeatherForecast_empties_cached_days
    [OF c t f, of node_globals "Inl TransportError" example_parseString] m l
  obtain forecast2 where
    "fst (getWeatherForecast node_globals (Inl TransportError) example_parseString
             (example_feed_state\<lparr>feedDataCache :=
                Some (0, Resolved (assign_prop example_feed ''verwachting_meerdaags'' example_forecast))\<rparr>))
        = Resolved forecast2"
    "read_prop forecast2 ''dagen'' = Array []"
    by blast
  with c t f d m l show ?thesis by blast
qed

lemma getWeatherForecast_then_plain_text:
  "getWeatherForecast_then plain_text_feed =
     (Resolved plain_text_forecast,
      assign_prop plain_text_feed ''verwachting_meerdaags'' plain_text_forecast)"
  by code_simp

lemma getWeatherForecast_then_plain_text_again:
  "fst (getWeatherForecast_then
          (assign_prop plain_text_feed ''verwachting_meerdaags'' plain_text_forecast))
     = Rejected TypeError"
  by code_simp

text \<open>
  C10 without that distinction fails at a feed whose texts have no attributes: the first call,
  served from the cache, resolves and leaves both texts \<^verbatim>\<open>undefined\<close> in the cached data;
  the second call, served from the same cache entry, reads \<^verbatim>\<open>'$'\<close> of \<^verbatim>\<open>undefined\<close> on line
  374 and rejects with a \<^verbatim>\<open>TypeError\<close>: it returns no forecast.
\<close>

theorem getWeatherForecast_second_call_counterexample:
  "feedDataCache plain_text_state = Some (0, Resolved plain_text_feed)
   \<and> requestCacheTimeout plain_text_state \<noteq> 0
   \<and> getWeatherForecast node_globals (Inl TransportError) example_parseString plain_text_state
       = (Resolved plain_text_forecast, plain_text_state_after)
   \<and> feedDataCache plain_text_state_after
       = Some (0, Resolved (assign_prop plain_text_feed ''verwachting_meerdaags'' plain_text_forecast))
   \<and> fst (getWeatherForecast node_globals (Inl TransportError) example_parseString
            plain_text_state_after) = Rejected TypeError"
proof -
  have c: "feedDataCache plain_text_state = Some (0, Resolved plain_text_feed)"
    and t: "requestCacheTimeout plain_text_state \<noteq> 0"
    by (simp_all add: plain_text_state_def example_state_def)
  have c': "feedDataCache plain_text_state_after
       = Some (0, Resolved (assign_prop plain_text_feed ''verwachting_meerdaags'' plain_text_forecast))"
    and t': "requestCacheTimeout plain_text_state_after \<noteq> 0"
    by (simp_all add: plain_text_state_after_def plain_text_state_def example_state_def)
  have "getWeatherForecast node_globals (Inl TransportError) example_parseString plain_text_state
       = (Resolved plain_text_forecast, plain_text_state_after)"
    by (simp add: getWeatherForecast_cached [OF c t] getWeatherForecast_then_plain_text
        plain_text_state_after_def)
  moreover have "fst (getWeatherForecast node_globals (Inl TransportError) example_parseString
            plain_text_state_after) = Rejected TypeError"
    by (simp add: getWeatherForecast_cached [OF c' t'] getWeatherForecast_then_plain_text_again)
  ultimately show ?thesis
    using c t c' by simp
qed

lemma http_not_in_scope: "''http'' \<notin> set getRawFeedData_scope"
  by (simp add: getRawFeedData_scope_def)

lemma getRawFeedData_unbound:
  "''http'' \<notin> set globals \<Longrightarrow> getRawFeedData globals transport = Rejected (ReferenceError ''http'')"
  by (simp add: getRawFeedData_def http_not_in_scope)

lemma getFeedData_fresh_unbound:
  assumes "''http'' \<notin> set globals"
    and "requestCacheTimeout s = 0 \<or> feedDataCache s = None"
  shows "fst (getFeedData globals transport parseString s) = Rejected (ReferenceError ''http'')"
  using assms
  by (auto simp: getFeedData_def getFeedData_call_def getFeedData_then_def Let_def
      getRawFeedData_unbound split: option.splits)

lemma feedDataCache_checkLocationChange: "feedDataCache (checkLocationChange s) = feedDataCache s"
  by (simp add: checkLocationChange_def resetCache_def)

text \<open>
  C4. The body of \<^verbatim>\<open>getRawFeedData\<close> names \<^verbatim>\<open>http\<close>, which no scope around it binds. On a
  host whose global object has no \<^verbatim>\<open>http\<close> either, every call of \<^verbatim>\<open>getRawFeedData\<close> rejects
  with the \<^verbatim>\<open>ReferenceError\<close>, whatever the network would answer, and so does every call of
  \<^verbatim>\<open>getFeedData\<close>, \<^verbatim>\<open>getNearestWeatherStationData\<close>, \<^verbatim>\<open>getWeatherForecast\<close> and
  \<^verbatim>\<open>getCurrentWeather\<close> that has to fetch (caching is off, or the cache is empty).
\<close>

theorem getRawFeedData_http_unbound:
  assumes "''http'' \<notin> set globals"
  shows "''http'' \<notin> set getRawFeedData_scope
       \<and> getRawFeedData globals transport = Rejected (ReferenceError ''http'')
       \<and> (requestCacheTimeout s = 0 \<or> feedDataCache s = None \<longrightarrow>
             fst (getFeedData globals transport parseString s) = Rejected (ReferenceError ''http'')
           \<and> fst (getNearestWeatherStationData requireParams geodist globals transport parseString s)
               = Rejected (ReferenceError ''http'')
           \<and> fst (getWeatherForecast globals transport parseString s)
               = Rejected (ReferenceError ''http'')
           \<and> fst (getCurrentWeather globals transport parseString s)
               = Rejected (ReferenceError ''http''))"
proof (intro conjI impI)
  show "''http'' \<notin> set getRawFeedData_scope" by (rule http_not_in_scope)
  show "getRawFeedData globals transport = Rejected (ReferenceError ''http'')"
    using assms by (rule getRawFeedData_unbound)
next
  assume fresh: "requestCacheTimeout s = 0 \<or> feedDataCache s = None"
  from assms fresh
  show f: "fst (getFeedData globals transport parseString s) = Rejected (ReferenceError ''http'')"
    by (rule getFeedData_fresh_unbound)
  from fresh have "requestCacheTimeout (checkLocationChange s) = 0 \<or> feedDataCache (checkLocationChange s) = None"
    by (simp add: feedDataCache_checkLocationChange requestCacheTimeout_checkLocationChange)
  with assms have "fst (getFeedData globals transport parseString (checkLocationChange s))
      = Rejected (ReferenceError ''http'')"
    by (rule getFeedData_fresh_unbound)
  then show "fst (getNearestWeatherStationData requireParams geodist globals transport parseString s)
               = Rejected (ReferenceError ''http'')"
    by (cases "getFeedData globals transport parseString (checkLocationChange s)")
       (simp add: getNearestWeatherStationData_def)
  from f show "fst (getWeatherForecast globals transport parseString s) = Rejected (ReferenceError ''http'')"
    by (cases "getFeedData globals transport parseString s") (simp add: getWeatherForecast_def)
  from f show "fst (getCurrentWeather globals transport parseString s) = Rejected (ReferenceError ''http'')"
    by (cases "getFeedData globals transport parseString s") (simp add: getCurrentWeather_def)
qed

theorem getRawFeedData_http_unbound_witness:
  "''http'' \<notin> set node_globals
   \<and> getRawFeedData node_globals (Inr ''<buienradarnl/>'') = Rejected (ReferenceError ''http'')
   \<and> feedDataCache example_state = None
   \<and> fst (getFeedData node_globals (Inr ''<buienradarnl/>'') example_parseString example_state)
       = Rejected (ReferenceError ''http'')
   \<and> fst (getNearestWeatherStationData None example_geodist node_globals (Inr ''<buienradarnl/>'')
            example_parseString example_state) = Rejected (ReferenceError ''http'')
   \<and> fst (getWeatherForecast node_globals (Inr ''<buienradarnl/>'') example_parseString example_state)
       = Rejected (ReferenceError ''http'')
   \<and> fst (getCurrentWeather node_globals (Inr ''<buienradarnl/>'') example_parseString example_state)
       = Rejected (ReferenceError ''http'')"
proof -
  have g: "''http'' \<notin> set node_globals"
    by (simp add: node_globals_def)
  have c: "feedDataCache example_state = None"
    by (simp add: example_state_def)
  from getRawFeedData_http_unbound
    [OF g, of "Inr ''<buienradarnl/>''" example_state example_parseString None example_geodist] g c
  show ?thesis by simp
qed

text \<open>
  C3. What the code does when \<^verbatim>\<open>regenMMPU\<close> is required. The nearest station of the
  example feed has a pressure and the sentinel \<^verbatim>\<open>'-'\<close> as its rain rate: it is chosen without
  required fields and with \<^verbatim>\<open>['luchtdruk']\<close>, but with \<^verbatim>\<open>['regenMMPU']\<close> it is skipped and
  the station further away is chosen. Line 317 filters \<^verbatim>\<open>regenMMPU\<close> out of a copy of
  \<^verbatim>\<open>requireParams\<close> that nothing uses, so the field is not exempt.
\<close>

theorem getNearestWeatherStationData_regenMMPU_not_exempt:
  "fst (getNearestWeatherStationData None example_geodist node_globals (Inl TransportError)
          example_parseString example_feed_state)
     = Resolved (normalise_station station_twenthe)
   \<and> fst (getNearestWeatherStationData (Some [''luchtdruk'']) example_geodist node_globals
          (Inl TransportError) example_parseString example_feed_state)
     = Resolved (normalise_station station_twenthe)
   \<and> fst (getNearestWeatherStationData (Some [''regenMMPU'']) example_geodist node_globals
          (Inl TransportError) example_parseString example_feed_state)
     = Resolved (normalise_station station_deelen)"
  by (simp add: getNearestWeatherStationData_def getFeedData_def getFeedData_call_def
      checkLocationChange_def resetCache_def example_feed_state_def example_state_def
      getNearestWeatherStationData_then_def example_feed_def lookup_def Let_def
      findNearestWeatherStation_def station_twenthe_def station_deelen_def skip_param_def
      example_geodist_def upt_rec [of 0] upt_rec [of 1] upt_rec [of "Suc 0"])


section \<open>Properties of the timers\<close>

lemma timers_ok_initial: "Buienradar cfg = Inr s \<Longrightarrow> timers_ok s"
  by (auto simp: Buienradar_def timers_ok_def pending_def
      split: option.splits if_splits jsnum.splits prod.splits)

lemma checkLocationChange_timers [simp]:
  "timers (checkLocationChange s) = timers s"
  "rainDataCacheTimeout (checkLocationChange s) = rainDataCacheTimeout s"
  "feed_requests (checkLocationChange s) = feed_requests s"
  by (simp_all add: checkLocationChange_def resetCache_def)

lemma timers_ok_cong:
  assumes "timers_ok s"
    and "requestCacheTimeout s' = requestCacheTimeout s" and "timers s' = timers s"
    and "rainDataCacheTimeout s' = rainDataCacheTimeout s"
    and "feedDataCache s' = feedDataCache s" and "feed_requests s' = feed_requests s"
  shows "timers_ok s'"
  using assms by (simp add: timers_ok_def pending_def)

lemma timers_ok_getRainData_call: "timers_ok s \<Longrightarrow> timers_ok (getRainData_call forceRefresh s)"
  by (erule timers_ok_cong)
     (simp_all add: getRainData_call_def Let_def requestCacheTimeout_checkLocationChange
        feedDataCache_checkLocationChange)

lemma timers_ok_setLatLon: "timers_ok s \<Longrightarrow> setLatLon a b s = Inr s' \<Longrightarrow> timers_ok s'"
  by (erule timers_ok_cong)
     (auto simp: setLatLon_def resetCache_def Let_def split: prod.splits jsnum.splits location_arg.splits if_splits)

text \<open>A successful parse with caching on: the timers afterwards.\<close>

lemma timers_getRainData_then:
  assumes "2 \<le> length (rainDataRegex_matches data)" and "requestCacheTimeout s \<noteq> 0"
  shows "timers (snd (getRainData_then now data s)) =
           (case rainDataCacheTimeout s of
              None \<Rightarrow> timers s
            | Some i \<Rightarrow> filter (\<lambda>t. handle t \<noteq> i) (timers s))
           @ [\<lparr>handle = next_handle s, callback = ClearRainData, delay = requestCacheTimeout s\<rparr>]"
    and "rainDataCacheTimeout (snd (getRainData_then now data s)) = Some (next_handle s)"
    and "requestCacheTimeout (snd (getRainData_then now data s)) = requestCacheTimeout s"
    and "feedDataCache (snd (getRainData_then now data s)) = feedDataCache s"
    and "feed_requests (snd (getRainData_then now data s)) = feed_requests s"
  using assms
  by (simp_all add: getRainData_then_def Let_def length_parseRainData setTimeout_def clearTimeout_def
      split: option.splits)

lemma getRainData_then_fails:
  assumes "\<not> 2 \<le> length (rainDataRegex_matches data)"
  shows "snd (getRainData_then now data s) = s\<lparr>rainData := None\<rparr>"
  using assms by (simp add: getRainData_then_def Let_def length_parseRainData)

lemma pending_rain_after_success:
  assumes ok: "timers_ok s" and n: "2 \<le> length (rainDataRegex_matches data)"
  shows "pending ClearRainData (snd (getRainData_then now data s)) =
           [\<lparr>handle = next_handle s, callback = ClearRainData, delay = requestCacheTimeout s\<rparr>]"
proof -
  from ok have ttl: "requestCacheTimeout s \<noteq> 0"
    and named: "list_all (\<lambda>t. rainDataCacheTimeout s = Some (handle t)) (pending ClearRainData s)"
    by (simp_all add: timers_ok_def)
  have "filter (\<lambda>t. callback t = ClearRainData)
          (case rainDataCacheTimeout s of None \<Rightarrow> timers s
           | Some i \<Rightarrow> filter (\<lambda>t. handle t \<noteq> i) (timers s)) = []"
  proof (cases "rainDataCacheTimeout s")
    case None
    with named show ?thesis
      by (auto simp: pending_def list_all_iff filter_empty_conv)
  next
    case (Some i)
    with named show ?thesis
      by (auto simp: pending_def list_all_iff filter_empty_conv)
  qed
  then show ?thesis
    by (simp add: pending_def timers_getRainData_then(1) [OF n ttl])
qed

lemma pending_feed_sublist_rain_success:
  assumes n: "2 \<le> length (rainDataRegex_matches data)" and ttl: "requestCacheTimeout s \<noteq> 0"
  shows "pending ClearFeedDataCache (snd (getRainData_then now data s)) =
           (case rainDataCacheTimeout s of None \<Rightarrow> pending ClearFeedDataCache s
            | Some i \<Rightarrow> filter (\<lambda>t. handle t \<noteq> i) (pending ClearFeedDataCache s))"
  by (simp add: pending_def timers_getRainData_then(1) [OF n ttl] split: option.splits)
     (metis (mono_tags, lifting) filter_cong)


lemma length_filter_le_1: "length xs \<le> Suc 0 \<Longrightarrow> length (filter P xs) \<le> Suc 0"
  using length_filter_le [of P xs] by linarith

lemma timers_ok_getRainData_then:
  assumes ok: "timers_ok s"
  shows "timers_ok (snd (getRainData_then now data s))"
proof (cases "2 \<le> length (rainDataRegex_matches data)")
  case False
  then have "snd (getRainData_then now data s) = s\<lparr>rainData := None\<rparr>"
    by (rule getRainData_then_fails)
  with ok show ?thesis by (simp add: timers_ok_def pending_def)
next
  case True
  let ?s' = "snd (getRainData_then now data s)"
  from ok have ttl: "requestCacheTimeout s \<noteq> 0" by (simp add: timers_ok_def)
  note after = timers_getRainData_then [OF True ttl, of now]
  have rain: "pending ClearRainData ?s' =
      [\<lparr>handle = next_handle s, callback = ClearRainData, delay = requestCacheTimeout s\<rparr>]"
    using ok True by (rule pending_rain_after_success)
  have feed: "pending ClearFeedDataCache ?s' =
           (case rainDataCacheTimeout s of None \<Rightarrow> pending ClearFeedDataCache s
            | Some i \<Rightarrow> filter (\<lambda>t. handle t \<noteq> i) (pending ClearFeedDataCache s))"
    using True ttl by (rule pending_feed_sublist_rain_success)
  from ok have f1: "length (pending ClearFeedDataCache s) \<le> 1"
    and f2: "pending ClearFeedDataCache s = [] \<or> (feedDataCache s \<noteq> None \<and> feed_requests s = [])"
    and f3: "feed_requests s = [] \<or> feedDataCache s \<noteq> None"
    and f4: "length (feed_requests s) \<le> 1"
    by (simp_all add: timers_ok_def)
  from f1 have g1: "length (pending ClearFeedDataCache ?s') \<le> 1"
    by (simp add: feed length_filter_le_1 split: option.splits)
  from f2 have g2: "pending ClearFeedDataCache ?s' = [] \<or> (feedDataCache s \<noteq> None \<and> feed_requests s = [])"
    by (auto simp: feed split: option.splits)
  show ?thesis
    unfolding timers_ok_def
    using rain g1 g2 f3 f4 ttl by (simp add: after)
qed

lemma timers_ok_getRainData_settle:
  assumes "timers_ok s"
  shows "timers_ok (getRainData_settle now replies (s\<lparr>rain_requests := n\<rparr>))"
proof -
  from assms have "timers_ok (s\<lparr>rain_requests := n\<rparr>)"
    by (rule timers_ok_cong) simp_all
  then show ?thesis
    by (simp add: getRainData_settle_def timers_ok_getRainData_then split: promise.splits)
qed

lemma timers_ok_getFeedData_call:
  assumes "timers_ok s"
  shows "timers_ok (snd (getFeedData_call s))"
  using assms
  by (auto simp: getFeedData_call_def Let_def timers_ok_def pending_def split: option.splits)

text \<open>The promise of the feed settles: the three ways it can go.\<close>

lemma settle_fields [simp]:
  "timers (settle p v s) = timers s"
  "requestCacheTimeout (settle p v s) = requestCacheTimeout s"
  "rainDataCacheTimeout (settle p v s) = rainDataCacheTimeout s"
  "feed_requests (settle p v s) = feed_requests s"
  "next_handle (settle p v s) = next_handle s"
  by (simp_all add: settle_def split: option.splits)

lemma settle_keeps_promise:
  "feedDataCache s \<noteq> None \<Longrightarrow> feedDataCache (settle p v s) \<noteq> None"
  by (auto simp: settle_def split: option.splits)

lemma timers_ok_getFeedData_then:
  assumes ok: "timers_ok s" and p: "p \<in> set (feed_requests s)"
  shows "timers_ok (snd (getFeedData_then p raw parseString s))"
    and "fst (getFeedData_then p raw parseString s) = Resolved w \<Longrightarrow>
           pending ClearFeedDataCache (snd (getFeedData_then p raw parseString s)) =
             [\<lparr>handle = next_handle s, callback = ClearFeedDataCache, delay = requestCacheTimeout s\<rparr>]"
proof -
  from ok have ttl: "requestCacheTimeout s \<noteq> 0"
    and r1: "length (pending ClearRainData s) \<le> 1"
    and r2: "list_all (\<lambda>t. rainDataCacheTimeout s = Some (handle t)) (pending ClearRainData s)"
    and f2: "pending ClearFeedDataCache s = [] \<or> (feedDataCache s \<noteq> None \<and> feed_requests s = [])"
    and f3: "feed_requests s = [] \<or> feedDataCache s \<noteq> None"
    and f4: "length (feed_requests s) \<le> 1"
    by (simp_all add: timers_ok_def)
  from p f2 have none: "pending ClearFeedDataCache s = []" by auto
  from p f3 have cache: "feedDataCache s \<noteq> None" by auto
  from p f4 have only: "removeAll p (feed_requests s) = []"
    by (cases "feed_requests s") (auto split: if_splits)
  let ?s0 = "s\<lparr>feed_requests := []\<rparr>"
  have cache0: "feedDataCache (settle p v ?s0) \<noteq> None" for v
    using cache by (intro settle_keeps_promise) simp
  show "timers_ok (snd (getFeedData_then p raw parseString s))"
    using ok ttl r1 r2 none only cache0
    by (auto simp: getFeedData_then_def Let_def timers_ok_def pending_def setTimeout_def
        split: promise.splits sum.splits)
  show "pending ClearFeedDataCache (snd (getFeedData_then p raw parseString s)) =
             [\<lparr>handle = next_handle s, callback = ClearFeedDataCache, delay = requestCacheTimeout s\<rparr>]"
    if "fst (getFeedData_then p raw parseString s) = Resolved w"
    using that ttl none only
    by (auto simp: getFeedData_then_def Let_def pending_def setTimeout_def
        split: promise.splits sum.splits if_splits)
qed


lemma pending_after_clear:
  "pending cb (s\<lparr>timers := filter (\<lambda>t. handle t \<noteq> h) (timers s)\<rparr>)
     = filter (\<lambda>t. handle t \<noteq> h) (pending cb s)"
  by (auto simp: pending_def intro: filter_cong)

lemma timers_ok_timer_fires:
  assumes ok: "timers_ok s" and t: "filter (\<lambda>t. handle t = h) (timers s) = t # others"
  shows "timers_ok (run_callback (callback t) (s\<lparr>timers := filter (\<lambda>t. handle t \<noteq> h) (timers s)\<rparr>))"
proof -
  let ?s1 = "s\<lparr>timers := filter (\<lambda>t. handle t \<noteq> h) (timers s)\<rparr>"
  from t have "t \<in> set (filter (\<lambda>t. handle t = h) (timers s))" by simp
  then have mem: "t \<in> set (timers s)" and h: "handle t = h" by simp_all
  from ok have ttl: "requestCacheTimeout s \<noteq> 0"
    and r1: "length (pending ClearRainData s) \<le> Suc 0"
    and r2: "list_all (\<lambda>t. rainDataCacheTimeout s = Some (handle t)) (pending ClearRainData s)"
    and f1: "length (pending ClearFeedDataCache s) \<le> Suc 0"
    and f2: "pending ClearFeedDataCache s = [] \<or> (feedDataCache s \<noteq> None \<and> feed_requests s = [])"
    and f3: "feed_requests s = [] \<or> feedDataCache s \<noteq> None"
    and f4: "length (feed_requests s) \<le> Suc 0"
    by (simp_all add: timers_ok_def)
  have r1': "length (pending ClearRainData ?s1) \<le> Suc 0"
    using r1 by (simp only: pending_after_clear length_filter_le_1)
  have r2': "list_all (\<lambda>t. rainDataCacheTimeout s = Some (handle t)) (pending ClearRainData ?s1)"
    using r2 by (simp add: pending_after_clear list_all_iff)
  have f1': "length (pending ClearFeedDataCache ?s1) \<le> Suc 0"
    using f1 by (simp only: pending_after_clear length_filter_le_1)
  show ?thesis
  proof (cases "callback t")
    case ClearRainData
    from f2 have "pending ClearFeedDataCache ?s1 = [] \<or> (feedDataCache s \<noteq> None \<and> feed_requests s = [])"
      by (auto simp: pending_after_clear)
    with ClearRainData ttl r1' r2' f1' f3 f4 show ?thesis
      by (simp add: timers_ok_def pending_def)
  next
    case ClearFeedDataCache
    with mem have "t \<in> set (pending ClearFeedDataCache s)"
      by (simp add: pending_def)
    with f1 have one: "pending ClearFeedDataCache s = [t]"
      by (cases "pending ClearFeedDataCache s") auto
    with f2 have "feed_requests s = []" by simp
    moreover from one h have "pending ClearFeedDataCache ?s1 = []"
      by (simp add: pending_after_clear)
    ultimately show ?thesis
      using ClearFeedDataCache ttl r1' r2' by (simp add: timers_ok_def pending_def)
  qed
qed

lemma timers_ok_step:
  assumes "timers_ok s" and "step globals parseString e s = Some s'"
  shows "timers_ok s'"
proof (cases e)
  case (GetRainData forceRefresh)
  with assms show ?thesis by (auto simp: timers_ok_getRainData_call)
next
  case (RainDataArrives now replies)
  with assms show ?thesis by (auto simp: timers_ok_getRainData_settle split: if_splits)
next
  case GetFeedData
  with assms show ?thesis by (auto simp: timers_ok_getFeedData_call)
next
  case (FeedDataArrives p transport)
  with assms show ?thesis by (auto simp: timers_ok_getFeedData_then(1) split: if_splits)
next
  case (TimerFires h)
  with assms show ?thesis by (auto simp: timers_ok_timer_fires split: list.splits)
next
  case (SetLatLon a b)
  with assms show ?thesis by (auto simp: timers_ok_setLatLon split: sum.splits)
qed

lemma timers_ok_run:
  "timers_ok s \<Longrightarrow> run globals parseString events s = Some s' \<Longrightarrow> timers_ok s'"
proof (induction events arbitrary: s)
  case Nil
  then show ?case by simp
next
  case (Cons e es)
  then show ?case
    by (cases "step globals parseString e s") (auto dest: timers_ok_step)
qed

text \<open>
  C6. In every state that calls, replies and timers can reach from a freshly constructed
  object, in any order, each cache slot has at most one pending timer. A feed request
  starts only when \<^verbatim>\<open>feedDataCache\<close> is empty, and then no feed timer is pending. Every
  successful fetch leaves exactly one pending timer for its slot, the one it installs: the
  rain fetch cancels the timer before, the feed fetch finds none. So the only timer that can
  clear a cache entry is the one installed when the entry was written.
\<close>

theorem at_most_one_pending_timer:
  assumes "Buienradar cfg = Inr s0" and "run globals parseString events s0 = Some s"
  shows "length (pending ClearRainData s) \<le> 1
       \<and> length (pending ClearFeedDataCache s) \<le> 1
       \<and> (feedDataCache s = None \<longrightarrow> pending ClearFeedDataCache s = [])
       \<and> (\<forall>now replies data s'.
             step globals parseString (RainDataArrives now replies) s = Some s'
             \<and> raceOfRequests replies = Resolved data \<and> 2 \<le> length (rainDataRegex_matches data)
             \<longrightarrow> rainData s' = Some (parseRainData now data)
               \<and> pending ClearRainData s' =
                   [\<lparr>handle = next_handle s, callback = ClearRainData, delay = requestCacheTimeout s\<rparr>])
       \<and> (\<forall>p transport data s'.
             step globals parseString (FeedDataArrives p transport) s = Some s'
             \<and> fst (getFeedData_then p (getRawFeedData globals transport) parseString s) = Resolved data
             \<longrightarrow> pending ClearFeedDataCache s' =
                   [\<lparr>handle = next_handle s, callback = ClearFeedDataCache, delay = requestCacheTimeout s\<rparr>])"
proof -
  from assms have ok: "timers_ok s"
    by (blast intro: timers_ok_run timers_ok_initial)
  then have ttl: "requestCacheTimeout s \<noteq> 0" by (simp add: timers_ok_def)
  from ok have A: "length (pending ClearRainData s) \<le> 1" "length (pending ClearFeedDataCache s) \<le> 1"
    "feedDataCache s = None \<longrightarrow> pending ClearFeedDataCache s = []"
    by (auto simp: timers_ok_def)
  have B: "rainData s' = Some (parseRainData now data)
               \<and> pending ClearRainData s' =
                   [\<lparr>handle = next_handle s, callback = ClearRainData, delay = requestCacheTimeout s\<rparr>]"
    if "step globals parseString (RainDataArrives now replies) s = Some s'
             \<and> raceOfRequests replies = Resolved data \<and> 2 \<le> length (rainDataRegex_matches data)"
    for now replies data s'
  proof -
    let ?s1 = "s\<lparr>rain_requests := rain_requests s - 1\<rparr>"
    from that have s': "s' = snd (getRainData_then now data ?s1)"
      and n: "2 \<le> length (rainDataRegex_matches data)"
      by (auto simp: getRainData_settle_def split: if_splits)
    from ok have "timers_ok ?s1" by (rule timers_ok_cong) simp_all
    from pending_rain_after_success [OF this n, of now]
    have "pending ClearRainData s' =
            [\<lparr>handle = next_handle s, callback = ClearRainData, delay = requestCacheTimeout s\<rparr>]"
      by (simp add: s')
    moreover from n ttl have "rainData s' = Some (parseRainData now data)"
      by (simp add: s' getRainData_then_def Let_def length_parseRainData setTimeout_def clearTimeout_def
          split: option.splits)
    ultimately show ?thesis by simp
  qed
  have C: "pending ClearFeedDataCache s' =
                   [\<lparr>handle = next_handle s, callback = ClearFeedDataCache, delay = requestCacheTimeout s\<rparr>]"
    if "step globals parseString (FeedDataArrives p transport) s = Some s'
             \<and> fst (getFeedData_then p (getRawFeedData globals transport) parseString s) = Resolved data"
    for p transport data s'
  proof -
    from that have p: "p \<in> set (feed_requests s)"
      and s': "s' = snd (getFeedData_then p (getRawFeedData globals transport) parseString s)"
      and res: "fst (getFeedData_then p (getRawFeedData globals transport) parseString s) = Resolved data"
      by (auto split: if_splits)
    from timers_ok_getFeedData_then(2) [OF ok p res] show ?thesis by (simp add: s')
  qed
  from A B C show ?thesis by blast
qed


lemma raceOfRequests_example:
  "raceOfRequests [None, Some example_text] = Resolved example_text"
  "raceOfRequests [Some example_text] = Resolved example_text"
  by (simp_all add: raceOfRequests_def apiUrls_def matches_rainDataRegex_def example_matches)
     (simp_all add: example_text_def)

lemma truthy_example_feed: "truthy example_feed"
  by (simp add: example_feed_def)

lemma run_example:
  "run (''http'' # node_globals) example_parseString example_events example_state
     = Some example_final_state"
  by (simp add: example_events_def example_final_state_def example_state_def
      getRainData_call_def getRainData_settle_def getRainData_then_def getFeedData_call_def
      getFeedData_then_def getRawFeedData_def checkLocationChange_def resetCache_def
      raceOfRequests_example length_parseRainData example_matches setTimeout_def clearTimeout_def
      settle_def example_parseString_def lookup_def truthy_example_feed Let_def)

theorem at_most_one_pending_timer_witness:
  "Buienradar (Some example_config) = Inr example_state
   \<and> run (''http'' # node_globals) example_parseString example_events example_state
       = Some example_final_state
   \<and> pending ClearRainData example_final_state
       = [\<lparr>handle = 2, callback = ClearRainData, delay = 1000\<rparr>]
   \<and> pending ClearFeedDataCache example_final_state
       = [\<lparr>handle = 1, callback = ClearFeedDataCache, delay = 1000\<rparr>]
   \<and> length (pending ClearRainData example_final_state) \<le> 1
   \<and> length (pending ClearFeedDataCache example_final_state) \<le> 1"
  using at_most_one_pending_timer [OF Buienradar_example run_example]
  by (simp add: Buienradar_example run_example)
     (simp add: pending_def example_final_state_def example_state_def)


end
